theory Spec2Isabelle
  imports Complex_Main
begin

section \<open>Conventions of the embedding\<close>

text \<open>
  The plug-in computes on IEEE single and double precision numbers. The embedding
  idealises both as \<^typ>\<open>real\<close>: every arithmetic operation is the exact one, a decimal
  literal denotes the number it writes, and there is no rounding, no infinity and no NaN.
  One literal is taken at the single precision number it stands for instead, the angle
  constant of \<open>panningEqualPower\<close>: a property below compares it with \<open>pi / 4\<close>, and
  the two differ in the eighth decimal place.
  Where the source would produce a number that is not finite (a division by zero) or
  touch memory outside an array, the model returns \<open>None\<close>.

  The functions are those of a release build: a \<open>jassert\<close> does nothing there, and each
  one is kept as a predicate of its own (\<open>read_pre\<close>,
  \<open>setMaximumDelayInSamples_pre\<close>) that the properties refer to.

  The C++ \<open>int\<close> is modelled as \<^typ>\<open>int\<close>; the indices computed by the delay line
  stay between \<open>- bufferLength\<close> and \<open>bufferLength\<close> whenever the precondition of \<open>read\<close>
  holds, so the wrap-around of the 32-bit type plays no part there.
\<close>

text \<open>The conversion \<open>int(x)\<close> of a floating point number: truncation toward zero.\<close>

definition float_to_int :: "real \<Rightarrow> int" where
  "float_to_int x = (if 0 \<le> x then \<lfloor>x\<rfloor> else \<lceil>x\<rceil>)"

section \<open>DelayLine.h, DelayLine.cpp\<close>

record DelayLine =
  buffer :: "real list"
  bufferLength :: int
  writeIndex :: int

text \<open>A default-constructed object: no buffer, both integers zero.\<close>

definition DelayLine_init :: DelayLine where
  "DelayLine_init = \<lparr>buffer = [], bufferLength = 0, writeIndex = 0\<rparr>"

text \<open>
  \<open>setMaximumDelayInSamples\<close>: the array made by \<open>new float[n]\<close> is not initialised;
  its contents are the parameter \<open>garbage\<close>. The \<open>jassert\<close> on the argument is the
  predicate \<open>setMaximumDelayInSamples_pre\<close>.
\<close>

definition setMaximumDelayInSamples_pre :: "int \<Rightarrow> bool" where
  "setMaximumDelayInSamples_pre maxLengthInSamples \<longleftrightarrow> maxLengthInSamples > 0"

definition setMaximumDelayInSamples :: "(nat \<Rightarrow> real) \<Rightarrow> int \<Rightarrow> DelayLine \<Rightarrow> DelayLine" where
  "setMaximumDelayInSamples garbage maxLengthInSamples dl =
     (let paddedLength = maxLengthInSamples + 2 in
      if bufferLength dl < paddedLength
      then dl\<lparr>bufferLength := paddedLength,
              buffer := map garbage [0 ..< nat paddedLength]\<rparr>
      else dl)"

text \<open>
  \<open>reset\<close>: the loop stores zero at every index below \<open>bufferLength\<close>. The array and
  \<open>bufferLength\<close> are only ever set together, so the array has that many elements.
\<close>

fun clear_from :: "nat \<Rightarrow> nat \<Rightarrow> real list \<Rightarrow> real list" where
  "clear_from i 0 b = b"
| "clear_from i (Suc n) b = clear_from (Suc i) n (b[i := 0])"

definition DelayLine_reset :: "DelayLine \<Rightarrow> DelayLine" where
  "DelayLine_reset dl = dl\<lparr>writeIndex := bufferLength dl - 1,
                  buffer := clear_from 0 (nat (bufferLength dl)) (buffer dl)\<rparr>"

text \<open>
  \<open>write\<close>: advance the index, wrap, store. A store outside the array is \<open>None\<close>.
\<close>

definition DelayLine_write :: "real \<Rightarrow> DelayLine \<Rightarrow> DelayLine option" where
  "DelayLine_write input dl =
     (let writeIndex1 = writeIndex dl + 1;
          writeIndex2 = (if writeIndex1 \<ge> bufferLength dl then 0 else writeIndex1)
      in if 0 \<le> writeIndex2 \<and> nat writeIndex2 < length (buffer dl)
         then Some (dl\<lparr>writeIndex := writeIndex2,
                        buffer := (buffer dl)[nat writeIndex2 := input]\<rparr>)
         else None)"

text \<open>The two debug assertions at the head of \<open>read\<close>.\<close>

definition read_pre :: "real \<Rightarrow> DelayLine \<Rightarrow> bool" where
  "read_pre delayInSamples dl \<longleftrightarrow>
     delayInSamples \<ge> 1 \<and> delayInSamples \<le> real_of_int (bufferLength dl) - 2"

text \<open>
  The four read indices of \<open>read\<close>, after the nested wrap-around adjustment, in the
  order A, B, C, D.
\<close>

definition readIndices :: "real \<Rightarrow> DelayLine \<Rightarrow> int \<times> int \<times> int \<times> int" where
  "readIndices delayInSamples dl =
     (let integerDelay = float_to_int delayInSamples;
          readIndexA = writeIndex dl - integerDelay + 1;
          readIndexB = readIndexA - 1;
          readIndexC = readIndexA - 2;
          readIndexD = readIndexA - 3
      in if readIndexD < 0 then
           (if readIndexC < 0 then
              (if readIndexB < 0 then
                 (if readIndexA < 0
                  then (readIndexA + bufferLength dl, readIndexB + bufferLength dl,
                        readIndexC + bufferLength dl, readIndexD + bufferLength dl)
                  else (readIndexA, readIndexB + bufferLength dl,
                        readIndexC + bufferLength dl, readIndexD + bufferLength dl))
               else (readIndexA, readIndexB,
                     readIndexC + bufferLength dl, readIndexD + bufferLength dl))
            else (readIndexA, readIndexB, readIndexC, readIndexD + bufferLength dl))
         else (readIndexA, readIndexB, readIndexC, readIndexD))"

text \<open>One array access \<open>buffer[size_t(i)]\<close>; outside the array it is \<open>None\<close>.\<close>

definition fetch :: "DelayLine \<Rightarrow> int \<Rightarrow> real option" where
  "fetch dl i = (if 0 \<le> i \<and> nat i < length (buffer dl) then Some (buffer dl ! nat i) else None)"

text \<open>The arithmetic of \<open>read\<close> on the four samples and the fractional part.\<close>

definition interpolate :: "real \<Rightarrow> real \<Rightarrow> real \<Rightarrow> real \<Rightarrow> real \<Rightarrow> real" where
  "interpolate sampleA sampleB sampleC sampleD fraction =
     (let slope0 = (sampleC - sampleA) * 0.5;
          slope1 = (sampleD - sampleB) * 0.5;
          v = sampleB - sampleC;
          w = slope0 + v;
          a = w + v + slope1;
          b = w + a;
          stage1 = a * fraction - b;
          stage2 = stage1 * fraction + slope0
      in stage2 * fraction + sampleB)"

definition DelayLine_read :: "real \<Rightarrow> DelayLine \<Rightarrow> real option" where
  "DelayLine_read delayInSamples dl =
     (case readIndices delayInSamples dl of (readIndexA, readIndexB, readIndexC, readIndexD) \<Rightarrow>
        (case (fetch dl readIndexA, fetch dl readIndexB, fetch dl readIndexC, fetch dl readIndexD) of
           (Some sampleA, Some sampleB, Some sampleC, Some sampleD) \<Rightarrow>
              Some (interpolate sampleA sampleB sampleC sampleD
                      (delayInSamples - real_of_int (float_to_int delayInSamples)))
         | _ \<Rightarrow> None))"

section \<open>Tempo.h, Tempo.cpp\<close>

text \<open>
  What \<open>Tempo::update\<close> uses of the host's transport: the pointer to the play head may be
  null (\<open>None\<close>), \<open>getPosition\<close> returns an optional position, and \<open>getBpm\<close> of a
  position is an optional tempo.
\<close>

record PositionInfo =
  getBpm :: "real option"

record AudioPlayHead =
  getPosition :: "PositionInfo option"

record Tempo =
  bpm :: real

definition Tempo_init :: Tempo where
  "Tempo_init = \<lparr>bpm = 120\<rparr>"

definition noteLengthMultipliers :: "real list" where
  "noteLengthMultipliers =
     [0.125, 0.5 / 3, 0.1875, 0.25, 1 / 3, 0.375, 0.5, 2 / 3,
      0.75, 1, 4 / 3, 1.5, 2, 8 / 3, 3, 4]"

definition Tempo_reset :: "Tempo \<Rightarrow> Tempo" where
  "Tempo_reset t = t\<lparr>bpm := 120\<rparr>"

definition Tempo_update :: "AudioPlayHead option \<Rightarrow> Tempo \<Rightarrow> Tempo" where
  "Tempo_update playhead t =
     (let t1 = Tempo_reset t in
      case playhead of
        None \<Rightarrow> t1
      | Some ph \<Rightarrow>
          (case getPosition ph of
             None \<Rightarrow> t1
           | Some pos \<Rightarrow>
               (case getBpm pos of
                  Some b \<Rightarrow> t1\<lparr>bpm := b\<rparr>
                | None \<Rightarrow> t1)))"

definition getTempo :: "Tempo \<Rightarrow> real" where
  "getTempo t = bpm t"

text \<open>
  \<open>getMillisecondsForNoteLength\<close>: the table is indexed without a check, and the
  quotient is not a finite number when the tempo is zero; both are \<open>None\<close>.
\<close>

definition getMillisecondsForNoteLength :: "int \<Rightarrow> Tempo \<Rightarrow> real option" where
  "getMillisecondsForNoteLength index t =
     (if 0 \<le> index \<and> nat index < length noteLengthMultipliers \<and> bpm t \<noteq> 0
      then Some (60000 * (noteLengthMultipliers ! nat index) / bpm t)
      else None)"

section \<open>Measurement.h\<close>

text \<open>The member \<open>value\<close>, an atomic float, is the field \<open>atomic_value\<close>.\<close>

record Measurement =
  atomic_value :: real

definition Measurement_reset :: "Measurement \<Rightarrow> Measurement" where
  "Measurement_reset m = m\<lparr>atomic_value := 0\<rparr>"

text \<open>
  \<open>compare_exchange_weak\<close> on one thread: it may fail spuriously (the flag), and on any
  failure the expected value is reloaded. The result is the success flag, the expected
  value afterwards and the object afterwards.
\<close>

definition compare_exchange_weak ::
  "bool \<Rightarrow> real \<Rightarrow> real \<Rightarrow> Measurement \<Rightarrow> bool \<times> real \<times> Measurement" where
  "compare_exchange_weak spurious expected desired m =
     (if \<not> spurious \<and> atomic_value m = expected
      then (True, expected, m\<lparr>atomic_value := desired\<rparr>)
      else (False, atomic_value m, m))"

text \<open>
  The loop of \<open>updateIfGreater\<close>, run against a finite schedule of spurious failures, one
  flag for each attempt; \<open>None\<close> when the schedule is used up before the loop has ended.
\<close>

fun updateIfGreater_loop :: "bool list \<Rightarrow> real \<Rightarrow> real \<Rightarrow> Measurement \<Rightarrow> Measurement option" where
  "updateIfGreater_loop [] newValue oldValue m =
     (if newValue > oldValue then None else Some m)"
| "updateIfGreater_loop (spurious # schedule) newValue oldValue m =
     (if newValue > oldValue
      then (case compare_exchange_weak spurious oldValue newValue m of
              (True, _, m') \<Rightarrow> Some m'
            | (False, oldValue', m') \<Rightarrow> updateIfGreater_loop schedule newValue oldValue' m')
      else Some m)"

definition updateIfGreater :: "bool list \<Rightarrow> real \<Rightarrow> Measurement \<Rightarrow> Measurement option" where
  "updateIfGreater schedule newValue m =
     updateIfGreater_loop schedule newValue (atomic_value m) m"

definition readAndReset :: "Measurement \<Rightarrow> real \<times> Measurement" where
  "readAndReset m = (atomic_value m, m\<lparr>atomic_value := 0\<rparr>)"

section \<open>DSP.h\<close>

text \<open>
  The pair returned is (left, right), the two reference parameters of the source. The
  constant is written \<open>0.7853981633974483f\<close> there, a single precision literal: the
  number it denotes is the nearest binary32 value, \<open>13176795 / 2^24\<close>, which is
  0.785398185253143310546875.
\<close>

definition panningEqualPower :: "real \<Rightarrow> real \<times> real" where
  "panningEqualPower panning =
     (let x = (13176795 / 16777216) * (panning + 1) in (cos x, sin x))"

section \<open>The JUCE classes used by the parameters and the processor\<close>

text \<open>
  \<open>juce::LinearSmoothedValue\<close>, \<open>juce::Decibels\<close> and
  \<open>juce::dsp::StateVariableTPTFilter\<close> belong to the JUCE library, not to this
  program. Their operations are parameters of the model: \<open>'s\<close> is the state of a smoothed
  value, \<open>'f\<close> the state of a filter, and every operation takes the state and returns the
  new one. Nothing is assumed about what they compute.
\<close>

record ('s, 'f) JUCE =
  smoother_reset :: "real \<Rightarrow> real \<Rightarrow> 's \<Rightarrow> 's"
  setCurrentAndTargetValue :: "real \<Rightarrow> 's \<Rightarrow> 's"
  setTargetValue :: "real \<Rightarrow> 's \<Rightarrow> 's"
  getNextValue :: "'s \<Rightarrow> real \<times> 's"
  decibelsToGain :: "real \<Rightarrow> real"
  filter_prepare :: "real \<Rightarrow> int \<Rightarrow> 'f \<Rightarrow> 'f"
  filter_reset :: "'f \<Rightarrow> 'f"
  setCutoffFrequency :: "real \<Rightarrow> 'f \<Rightarrow> 'f"
  processSample :: "int \<Rightarrow> real \<Rightarrow> 'f \<Rightarrow> real \<times> 'f"

section \<open>Parameters.h, Parameters.cpp\<close>

text \<open>
  The values held by the parameter objects of the host's parameter tree, as
  \<open>get()\<close> and \<open>getIndex()\<close> return them when they are read.
\<close>

record ParameterStore =
  gainParam :: real
  delayTimeParam :: real
  mixParam :: real
  feedbackParam :: real
  stereoParam :: real
  lowCutParam :: real
  highCutParam :: real
  tempoSyncParam :: bool
  delayNoteParam :: int

definition minDelayTime :: real where
  "minDelayTime = 5"

definition maxDelayTime :: real where
  "maxDelayTime = 5000"

text \<open>The ranges that \<open>createParameterLayout\<close> declares for the parameters.\<close>

definition createParameterLayout_ranges :: "ParameterStore \<Rightarrow> bool" where
  "createParameterLayout_ranges store \<longleftrightarrow>
     - 12 \<le> gainParam store \<and> gainParam store \<le> 12 \<and>
     minDelayTime \<le> delayTimeParam store \<and> delayTimeParam store \<le> maxDelayTime \<and>
     0 \<le> mixParam store \<and> mixParam store \<le> 100 \<and>
     - 100 \<le> feedbackParam store \<and> feedbackParam store \<le> 100 \<and>
     - 100 \<le> stereoParam store \<and> stereoParam store \<le> 100 \<and>
     20 \<le> lowCutParam store \<and> lowCutParam store \<le> 20000 \<and>
     20 \<le> highCutParam store \<and> highCutParam store \<le> 20000 \<and>
     0 \<le> delayNoteParam store \<and> delayNoteParam store < 16"

record 's Parameters =
  gain :: real
  delayTime :: real
  mix :: real
  feedback :: real
  panL :: real
  panR :: real
  lowCut :: real
  highCut :: real
  delayNote :: int
  tempoSync :: bool
  gainSmoother :: 's
  targetDelayTime :: real
  coeff :: real
  mixSmoother :: 's
  feedbackSmoother :: 's
  stereoSmoother :: 's
  lowCutSmoother :: 's
  highCutSmoother :: 's

text \<open>
  The default member initialisers of \<open>Parameters\<close>; \<open>smoother\<close> is a default-constructed
  smoothed value.
\<close>

definition Parameters_new :: "'s \<Rightarrow> 's Parameters" where
  "Parameters_new smoother =
     \<lparr>gain = 0, delayTime = 0, mix = 1, feedback = 0, panL = 0, panR = 1,
      lowCut = 20, highCut = 20000, delayNote = 0, tempoSync = False,
      gainSmoother = smoother, targetDelayTime = 0, coeff = 0,
      mixSmoother = smoother, feedbackSmoother = smoother, stereoSmoother = smoother,
      lowCutSmoother = smoother, highCutSmoother = smoother\<rparr>"

text \<open>
  \<open>Parameters::prepareToPlay\<close>. The quotient inside the exponential is not a finite
  number when the sample rate is zero: \<open>None\<close>.
\<close>

definition Parameters_prepareToPlay ::
  "('s, 'f) JUCE \<Rightarrow> real \<Rightarrow> 's Parameters \<Rightarrow> 's Parameters option" where
  "Parameters_prepareToPlay J sampleRate p =
     (let duration = 0.02 in
      if 0.2 * sampleRate = 0 then None
      else Some (p\<lparr>gainSmoother := smoother_reset J sampleRate duration (gainSmoother p),
                    coeff := 1 - exp (- 1 / (0.2 * sampleRate)),
                    mixSmoother := smoother_reset J sampleRate duration (mixSmoother p),
                    feedbackSmoother := smoother_reset J sampleRate duration (feedbackSmoother p),
                    stereoSmoother := smoother_reset J sampleRate duration (stereoSmoother p),
                    lowCutSmoother := smoother_reset J sampleRate duration (lowCutSmoother p),
                    highCutSmoother := smoother_reset J sampleRate duration (highCutSmoother p)\<rparr>))"

definition Parameters_reset ::
  "('s, 'f) JUCE \<Rightarrow> ParameterStore \<Rightarrow> 's Parameters \<Rightarrow> 's Parameters" where
  "Parameters_reset J store p =
     p\<lparr>gain := 0,
       gainSmoother :=
         setCurrentAndTargetValue J (decibelsToGain J (gainParam store)) (gainSmoother p),
       delayTime := 0,
       mix := 1,
       mixSmoother := setCurrentAndTargetValue J (mixParam store * 0.01) (mixSmoother p),
       feedback := 0,
       feedbackSmoother :=
         setCurrentAndTargetValue J (feedbackParam store * 0.01) (feedbackSmoother p),
       panL := 0,
       panR := 1,
       stereoSmoother :=
         setCurrentAndTargetValue J (stereoParam store * 0.01) (stereoSmoother p),
       lowCut := 20,
       lowCutSmoother := setCurrentAndTargetValue J (lowCutParam store) (lowCutSmoother p),
       highCut := 20000,
       highCutSmoother := setCurrentAndTargetValue J (highCutParam store) (highCutSmoother p)\<rparr>"

definition Parameters_update ::
  "('s, 'f) JUCE \<Rightarrow> ParameterStore \<Rightarrow> 's Parameters \<Rightarrow> 's Parameters" where
  "Parameters_update J store p =
     p\<lparr>gainSmoother := setTargetValue J (decibelsToGain J (gainParam store)) (gainSmoother p),
       targetDelayTime := delayTimeParam store,
       delayTime := (if delayTime p = 0 then delayTimeParam store else delayTime p),
       mixSmoother := setTargetValue J (mixParam store * 0.01) (mixSmoother p),
       feedbackSmoother := setTargetValue J (feedbackParam store * 0.01) (feedbackSmoother p),
       stereoSmoother := setTargetValue J (stereoParam store * 0.01) (stereoSmoother p),
       lowCutSmoother := setTargetValue J (lowCutParam store) (lowCutSmoother p),
       highCutSmoother := setTargetValue J (highCutParam store) (highCutSmoother p),
       delayNote := delayNoteParam store,
       tempoSync := tempoSyncParam store\<rparr>"

definition Parameters_smoothen :: "('s, 'f) JUCE \<Rightarrow> 's Parameters \<Rightarrow> 's Parameters" where
  "Parameters_smoothen J p =
     (let (gain', gainSmoother') = getNextValue J (gainSmoother p);
          delayTime' = delayTime p + (targetDelayTime p - delayTime p) * coeff p;
          (mix', mixSmoother') = getNextValue J (mixSmoother p);
          (feedback', feedbackSmoother') = getNextValue J (feedbackSmoother p);
          (stereo', stereoSmoother') = getNextValue J (stereoSmoother p);
          (panL', panR') = panningEqualPower stereo';
          (lowCut', lowCutSmoother') = getNextValue J (lowCutSmoother p);
          (highCut', highCutSmoother') = getNextValue J (highCutSmoother p)
      in p\<lparr>gain := gain', gainSmoother := gainSmoother',
            delayTime := delayTime',
            mix := mix', mixSmoother := mixSmoother',
            feedback := feedback', feedbackSmoother := feedbackSmoother',
            stereoSmoother := stereoSmoother', panL := panL', panR := panR',
            lowCut := lowCut', lowCutSmoother := lowCutSmoother',
            highCut := highCut', highCutSmoother := highCutSmoother'\<rparr>)"

section \<open>PluginProcessor.h, PluginProcessor.cpp\<close>

text \<open>
  The members of \<open>DelayAudioProcessor\<close> that \<open>prepareToPlay\<close> and \<open>processBlock\<close> use.
  \<open>sampleRate\<close> is what \<open>getSampleRate()\<close> returns: the host records the rate it passes to
  \<open>prepareToPlay\<close>.
\<close>

record ('s, 'f) DelayAudioProcessor =
  params :: "'s Parameters"
  levelL :: Measurement
  levelR :: Measurement
  delayLineL :: DelayLine
  delayLineR :: DelayLine
  feedbackL :: real
  feedbackR :: real
  lowCutFilter :: 'f
  highCutFilter :: 'f
  lastLowCut :: real
  lastHighCut :: real
  tempo :: Tempo
  sampleRate :: real

text \<open>
  A newly constructed processor. \<open>smoother\<close> is a default-constructed smoothed value,
  \<open>lowCutFilter0\<close> and \<open>highCutFilter0\<close> are the two filters after the constructor has set
  their types, and \<open>level\<close> is the content of the two atomics, which the source leaves
  uninitialised. No sample rate is known yet.
\<close>

definition DelayAudioProcessor_new ::
  "'s \<Rightarrow> 'f \<Rightarrow> 'f \<Rightarrow> real \<Rightarrow> ('s, 'f) DelayAudioProcessor" where
  "DelayAudioProcessor_new smoother lowCutFilter0 highCutFilter0 level =
     \<lparr>params = Parameters_new smoother,
      levelL = \<lparr>atomic_value = level\<rparr>,
      levelR = \<lparr>atomic_value = level\<rparr>,
      delayLineL = DelayLine_init,
      delayLineR = DelayLine_init,
      feedbackL = 0,
      feedbackR = 0,
      lowCutFilter = lowCutFilter0,
      highCutFilter = highCutFilter0,
      lastLowCut = - 1,
      lastHighCut = - 1,
      tempo = Tempo_init,
      sampleRate = 0\<rparr>"

definition prepareToPlay ::
  "('s, 'f) JUCE \<Rightarrow> (nat \<Rightarrow> real) \<Rightarrow> (nat \<Rightarrow> real) \<Rightarrow> ParameterStore \<Rightarrow> real \<Rightarrow> int \<Rightarrow>
   ('s, 'f) DelayAudioProcessor \<Rightarrow> ('s, 'f) DelayAudioProcessor option" where
  "prepareToPlay J garbageL garbageR store rate samplesPerBlock pr =
     (case Parameters_prepareToPlay J rate (params pr) of
        None \<Rightarrow> None
      | Some params1 \<Rightarrow>
          (let params2 = Parameters_reset J store params1;
               numSamples = maxDelayTime / 1000 * rate;
               maxDelayInSamples = \<lceil>numSamples\<rceil>
           in Some (pr\<lparr>params := params2,
                        sampleRate := rate,
                        delayLineL := DelayLine_reset
                          (setMaximumDelayInSamples garbageL maxDelayInSamples (delayLineL pr)),
                        delayLineR := DelayLine_reset
                          (setMaximumDelayInSamples garbageR maxDelayInSamples (delayLineR pr)),
                        feedbackL := 0,
                        feedbackR := 0,
                        lowCutFilter :=
                          filter_reset J (filter_prepare J rate samplesPerBlock (lowCutFilter pr)),
                        highCutFilter :=
                          filter_reset J (filter_prepare J rate samplesPerBlock (highCutFilter pr)),
                        lastLowCut := - 1,
                        lastHighCut := - 1,
                        tempo := Tempo_reset (tempo pr),
                        levelL := Measurement_reset (levelL pr),
                        levelR := Measurement_reset (levelR pr)\<rparr>)))"

text \<open>
  The body of the per-sample loop of \<open>processBlock\<close>, for one pair of dry input samples.
  It returns the processor afterwards, the pair of output samples, and the value of
  \<open>delayInSamples\<close> that it passed to both calls of \<open>read\<close>; the last is kept as an
  observation for the properties below.
\<close>

definition processBlock_sample ::
  "('s, 'f) JUCE \<Rightarrow> real \<Rightarrow> real \<times> real \<Rightarrow> ('s, 'f) DelayAudioProcessor \<Rightarrow>
   (('s, 'f) DelayAudioProcessor \<times> (real \<times> real) \<times> real) option" where
  "processBlock_sample J syncedTime dry pr =
     (let p = Parameters_smoothen J (params pr);
          delayTime' = (if tempoSync p then syncedTime else delayTime p);
          delayInSamples = delayTime' / 1000 * sampleRate pr;
          (lowCutFilter1, lastLowCut1) =
            (if lowCut p \<noteq> lastLowCut pr
             then (setCutoffFrequency J (lowCut p) (lowCutFilter pr), lowCut p)
             else (lowCutFilter pr, lastLowCut pr));
          (highCutFilter1, lastHighCut1) =
            (if highCut p \<noteq> lastHighCut pr
             then (setCutoffFrequency J (highCut p) (highCutFilter pr), highCut p)
             else (highCutFilter pr, lastHighCut pr));
          dryL = fst dry;
          dryR = snd dry;
          mono = (dryL + dryR) * 0.5
      in case DelayLine_write (mono * panL p + feedbackR pr) (delayLineL pr) of
           None \<Rightarrow> None
         | Some delayLineL1 \<Rightarrow>
        (case DelayLine_write (mono * panR p + feedbackL pr) (delayLineR pr) of
           None \<Rightarrow> None
         | Some delayLineR1 \<Rightarrow>
        (case DelayLine_read delayInSamples delayLineL1 of
           None \<Rightarrow> None
         | Some wetL \<Rightarrow>
        (case DelayLine_read delayInSamples delayLineR1 of
           None \<Rightarrow> None
         | Some wetR \<Rightarrow>
        (let (fbL1, lowCutFilter2) = processSample J 0 (wetL * feedback p) lowCutFilter1;
             (fbL2, highCutFilter2) = processSample J 0 fbL1 highCutFilter1;
             (fbR1, lowCutFilter3) = processSample J 1 (wetR * feedback p) lowCutFilter2;
             (fbR2, highCutFilter3) = processSample J 1 fbR1 highCutFilter2;
             mixL = dryL + wetL * mix p;
             mixR = dryR + wetR * mix p;
             outL = mixL * gain p;
             outR = mixR * gain p
         in Some (pr\<lparr>params := p,
                      delayLineL := delayLineL1,
                      delayLineR := delayLineR1,
                      feedbackL := fbL2,
                      feedbackR := fbR2,
                      lowCutFilter := lowCutFilter3,
                      highCutFilter := highCutFilter3,
                      lastLowCut := lastLowCut1,
                      lastHighCut := lastHighCut1\<rparr>,
                  (outL, outR), delayInSamples))))))"

text \<open>
  The per-sample loop over the block: besides the processor it carries the two running
  peaks, and it collects the output samples and the observed delays in order.
\<close>

fun processBlock_loop ::
  "('s, 'f) JUCE \<Rightarrow> real \<Rightarrow> (real \<times> real) list \<Rightarrow> ('s, 'f) DelayAudioProcessor \<Rightarrow> real \<times> real \<Rightarrow>
   (('s, 'f) DelayAudioProcessor \<times> (real \<times> real) list \<times> real list \<times> (real \<times> real)) option" where
  "processBlock_loop J syncedTime [] pr (maxL, maxR) = Some (pr, [], [], (maxL, maxR))"
| "processBlock_loop J syncedTime (dry # rest) pr (maxL, maxR) =
     (case processBlock_sample J syncedTime dry pr of
        None \<Rightarrow> None
      | Some (pr1, (outL, outR), delayInSamples) \<Rightarrow>
          (case processBlock_loop J syncedTime rest pr1 (max maxL \<bar>outL\<bar>, max maxR \<bar>outR\<bar>) of
             None \<Rightarrow> None
           | Some (pr2, outs, delays, peaks) \<Rightarrow>
               Some (pr2, (outL, outR) # outs, delayInSamples # delays, peaks)))"

text \<open>
  \<open>processBlock\<close> of a release build. \<open>mainInput\<close> holds the channels of the input bus (one
  or two, of the same length), \<open>isMainOutputStereo\<close> tells whether the output bus has two
  channels; with one output channel both output pointers name it, and the right sample,
  stored last, is the one that stays. The two schedules are those of the two calls of
  \<open>updateIfGreater\<close>. The result holds the processor, the output channels and the observed
  delays.
\<close>

definition processBlock ::
  "('s, 'f) JUCE \<Rightarrow> ParameterStore \<Rightarrow> AudioPlayHead option \<Rightarrow> bool list \<Rightarrow> bool list \<Rightarrow>
   real list list \<Rightarrow> bool \<Rightarrow> ('s, 'f) DelayAudioProcessor \<Rightarrow>
   (('s, 'f) DelayAudioProcessor \<times> real list list \<times> real list) option" where
  "processBlock J store playhead scheduleL scheduleR mainInput isMainOutputStereo pr =
     (case mainInput of
        [] \<Rightarrow> None
      | channel0 # others \<Rightarrow>
          (let params1 = Parameters_update J store (params pr);
               tempo1 = Tempo_update playhead (tempo pr)
           in case getMillisecondsForNoteLength (delayNote params1) tempo1 of
                None \<Rightarrow> None
              | Some ms \<Rightarrow>
                  (let syncedTime = (if ms > maxDelayTime then maxDelayTime else ms);
                       inputDataL = channel0;
                       inputDataR = (case others of [] \<Rightarrow> channel0 | channel1 # _ \<Rightarrow> channel1)
                   in case processBlock_loop J syncedTime (zip inputDataL inputDataR)
                             (pr\<lparr>params := params1, tempo := tempo1\<rparr>) (0, 0) of
                        None \<Rightarrow> None
                      | Some (pr1, outs, delays, (maxL, maxR)) \<Rightarrow>
                          (case updateIfGreater scheduleL maxL (levelL pr1) of
                             None \<Rightarrow> None
                           | Some levelL1 \<Rightarrow>
                               (case updateIfGreater scheduleR maxR (levelR pr1) of
                                  None \<Rightarrow> None
                                | Some levelR1 \<Rightarrow>
                                    Some (pr1\<lparr>levelL := levelL1, levelR := levelR1\<rparr>,
                                          (if isMainOutputStereo
                                           then [map fst outs, map snd outs]
                                           else [map snd outs]),
                                          delays))))))"

section \<open>Notions used to state the properties\<close>

text \<open>One read index after its own wrap-around adjustment: \<open>if (i < 0) i += len\<close>.\<close>

definition wrapIndex :: "int \<Rightarrow> int \<Rightarrow> int" where
  "wrapIndex len i = (if i < 0 then i + len else i)"

text \<open>The array of a delay line has \<open>bufferLength\<close> elements.\<close>

definition DelayLine_wf :: "DelayLine \<Rightarrow> bool" where
  "DelayLine_wf dl \<longleftrightarrow> int (length (buffer dl)) = bufferLength dl"

text \<open>A sequence of calls of \<open>write\<close>, first sample first.\<close>

fun write_all :: "real list \<Rightarrow> DelayLine \<Rightarrow> DelayLine option" where
  "write_all [] dl = Some dl"
| "write_all (x # xs) dl =
     (case DelayLine_write x dl of None \<Rightarrow> None | Some dl' \<Rightarrow> write_all xs dl')"

text \<open>
  The state of a delay line of capacity \<open>len\<close> after the samples \<open>ss\<close> have been written
  to it since its last reset: the sample number \<open>j\<close> (counted from zero) lies at index
  \<open>j mod len\<close> as long as fewer than \<open>len\<close> samples have been written after it, and the
  write index is that of the last sample.
\<close>

definition written :: "int \<Rightarrow> real list \<Rightarrow> DelayLine \<Rightarrow> bool" where
  "written len ss dl \<longleftrightarrow>
     bufferLength dl = len \<and> DelayLine_wf dl \<and>
     writeIndex dl = (int (length ss) - 1) mod len \<and>
     (\<forall>j < length ss. length ss \<le> j + nat len \<longrightarrow> buffer dl ! nat (int j mod len) = ss ! j)"

text \<open>
  The host gives no tempo: the play head is null, or it has no position, or the position
  carries no tempo.
\<close>

definition no_transport :: "AudioPlayHead option \<Rightarrow> bool" where
  "no_transport playhead =
     (case playhead of
        None \<Rightarrow> True
      | Some ph \<Rightarrow> (case getPosition ph of None \<Rightarrow> True | Some pos \<Rightarrow> getBpm pos = None))"

text \<open>Stepping \<open>smoothen\<close> \<open>n\<close> times, with nothing else touching the parameters.\<close>

definition smoothen_steps :: "('s, 'f) JUCE \<Rightarrow> nat \<Rightarrow> 's Parameters \<Rightarrow> 's Parameters" where
  "smoothen_steps J n p = (Parameters_smoothen J ^^ n) p"

text \<open>
  An instance of the JUCE operations for the worked examples: smoothed values that jump to
  their target, filters that pass every sample through.
\<close>

definition JUCE_plain :: "(real, unit) JUCE" where
  "JUCE_plain =
     \<lparr>smoother_reset = (\<lambda>rate duration s. s),
      setCurrentAndTargetValue = (\<lambda>v s. v),
      setTargetValue = (\<lambda>v s. v),
      getNextValue = (\<lambda>s. (s, s)),
      decibelsToGain = (\<lambda>dB. 10 powr (dB / 20)),
      filter_prepare = (\<lambda>rate size f. f),
      filter_reset = (\<lambda>f. f),
      setCutoffFrequency = (\<lambda>hz f. f),
      processSample = (\<lambda>channel x f. (x, f))\<rparr>"

text \<open>
  Parameters for the worked examples: prepared at 48 kHz, the delay time at 100 ms with a
  target of 200 ms, tempo sync switched on.
\<close>

definition Parameters_example :: "real Parameters" where
  "Parameters_example =
     \<lparr>gain = 1, delayTime = 100, mix = 1, feedback = 0.5, panL = 0, panR = 1,
      lowCut = 20, highCut = 20000, delayNote = 9, tempoSync = True,
      gainSmoother = 1, targetDelayTime = 200, coeff = 1 - exp (- 1 / (0.2 * 48000)),
      mixSmoother = 1, feedbackSmoother = 0.5, stereoSmoother = 0,
      lowCutSmoother = 20, highCutSmoother = 20000\<rparr>"

text \<open>
  A delay line that has its array and whose write index lies inside it, as after
  \<open>reset\<close> of a configured line and after every \<open>write\<close>.
\<close>

definition DelayLine_ready :: "DelayLine \<Rightarrow> bool" where
  "DelayLine_ready dl \<longleftrightarrow>
     DelayLine_wf dl \<and> 0 \<le> writeIndex dl \<and> writeIndex dl < bufferLength dl"

text \<open>
  A processor and a parameter store for the worked examples: two delay lines of eight
  samples that hold 1 to 8, the write index at the last one, at a sample rate of 1 kHz.
\<close>

definition DelayAudioProcessor_example :: "(real, unit) DelayAudioProcessor" where
  "DelayAudioProcessor_example =
     \<lparr>params = Parameters_example,
      levelL = \<lparr>atomic_value = 0\<rparr>,
      levelR = \<lparr>atomic_value = 0\<rparr>,
      delayLineL = \<lparr>buffer = [1, 2, 3, 4, 5, 6, 7, 8], bufferLength = 8, writeIndex = 7\<rparr>,
      delayLineR = \<lparr>buffer = [1, 2, 3, 4, 5, 6, 7, 8], bufferLength = 8, writeIndex = 7\<rparr>,
      feedbackL = 0.25,
      feedbackR = 0.75,
      lowCutFilter = (),
      highCutFilter = (),
      lastLowCut = - 1,
      lastHighCut = - 1,
      tempo = \<lparr>bpm = 120\<rparr>,
      sampleRate = 1000\<rparr>"

definition ParameterStore_example :: ParameterStore where
  "ParameterStore_example =
     \<lparr>gainParam = 0, delayTimeParam = 100, mixParam = 100, feedbackParam = 50,
      stereoParam = 0, lowCutParam = 20, highCutParam = 20000,
      tempoSyncParam = True, delayNoteParam = 0\<rparr>"

text \<open>
  The state that \<open>prepareToPlay\<close> establishes for the sample rate \<open>rate\<close> and that every
  block keeps: both delay lines have room for the maximum delay time at that rate, the
  one-pole coefficient lies strictly between 0 and 1, and the smoothed delay time is
  either still at its initial zero or inside the range of the delay time parameter.
\<close>

definition prepared :: "real \<Rightarrow> ('s, 'f) DelayAudioProcessor \<Rightarrow> bool" where
  "prepared rate pr \<longleftrightarrow>
     sampleRate pr = rate \<and> 0 < rate \<and>
     DelayLine_ready (delayLineL pr) \<and> DelayLine_ready (delayLineR pr) \<and>
     \<lceil>maxDelayTime / 1000 * rate\<rceil> + 2 \<le> bufferLength (delayLineL pr) \<and>
     \<lceil>maxDelayTime / 1000 * rate\<rceil> + 2 \<le> bufferLength (delayLineR pr) \<and>
     0 < coeff (params pr) \<and> coeff (params pr) < 1 \<and>
     (delayTime (params pr) = 0 \<or>
      minDelayTime \<le> delayTime (params pr) \<and> delayTime (params pr) \<le> maxDelayTime)"

text \<open>
  The same inside a block, after \<open>Parameters::update\<close> has read a delay time parameter
  inside its range: the smoothed delay time and its target both lie in the range.
\<close>

definition running :: "real \<Rightarrow> ('s, 'f) DelayAudioProcessor \<Rightarrow> bool" where
  "running rate pr \<longleftrightarrow>
     sampleRate pr = rate \<and> 0 < rate \<and>
     DelayLine_ready (delayLineL pr) \<and> DelayLine_ready (delayLineR pr) \<and>
     \<lceil>maxDelayTime / 1000 * rate\<rceil> + 2 \<le> bufferLength (delayLineL pr) \<and>
     \<lceil>maxDelayTime / 1000 * rate\<rceil> + 2 \<le> bufferLength (delayLineR pr) \<and>
     0 < coeff (params pr) \<and> coeff (params pr) < 1 \<and>
     minDelayTime \<le> delayTime (params pr) \<and> delayTime (params pr) \<le> maxDelayTime \<and>
     minDelayTime \<le> targetDelayTime (params pr) \<and> targetDelayTime (params pr) \<le> maxDelayTime"

section \<open>Properties of the delay line\<close>

lemma float_to_int_bounds:
  assumes "1 \<le> x" and "x \<le> real_of_int n"
  shows "1 \<le> float_to_int x" and "float_to_int x \<le> n"
proof -
  from assms(1) have fl: "float_to_int x = \<lfloor>x\<rfloor>" by (simp add: float_to_int_def)
  from assms(1) show "1 \<le> float_to_int x" unfolding fl by linarith
  from assms(2) show "float_to_int x \<le> n" unfolding fl by linarith
qed

text \<open>
  The four indices are consecutive before the adjustment, so the nested conditionals
  give what four separate adjustments would give.
\<close>

lemma readIndices_wrap:
  "readIndices d dl =
     (wrapIndex (bufferLength dl) (writeIndex dl - float_to_int d + 1),
      wrapIndex (bufferLength dl) (writeIndex dl - float_to_int d),
      wrapIndex (bufferLength dl) (writeIndex dl - float_to_int d - 1),
      wrapIndex (bufferLength dl) (writeIndex dl - float_to_int d - 2))"
  by (simp add: readIndices_def wrapIndex_def Let_def)

lemma wrapIndex_range:
  assumes "- len \<le> i" and "i < len"
  shows "0 \<le> wrapIndex len i" and "wrapIndex len i < len"
  using assms by (simp_all add: wrapIndex_def)

lemma wrapIndex_mod:
  assumes "- len \<le> i" and "i < len"
  shows "wrapIndex len i = i mod len"
proof (cases "i < 0")
  case True
  with assms have "(i + len) mod len = i + len" by (intro mod_pos_pos_trivial) simp_all
  with True show ?thesis by (simp add: wrapIndex_def)
next
  case False
  with assms show ?thesis by (simp add: wrapIndex_def)
qed

lemma read_pre_integerDelay:
  assumes "read_pre d dl"
  shows "1 \<le> float_to_int d" and "float_to_int d \<le> bufferLength dl - 2"
proof -
  from assms have "1 \<le> d" "d \<le> real_of_int (bufferLength dl - 2)"
    by (simp_all add: read_pre_def)
  then show "1 \<le> float_to_int d" and "float_to_int d \<le> bufferLength dl - 2"
    by (rule float_to_int_bounds)+
qed

lemma fetch_in_range:
  assumes "DelayLine_wf dl" and "0 \<le> i" and "i < bufferLength dl"
  shows "fetch dl i = Some (buffer dl ! nat i)"
  using assms by (simp add: fetch_def DelayLine_wf_def)

lemma DelayLine_read_in_range:
  assumes pre: "read_pre d dl" and wf: "DelayLine_wf dl"
    and wi: "0 \<le> writeIndex dl" "writeIndex dl < bufferLength dl"
  shows "DelayLine_read d dl =
     Some (interpolate
       (buffer dl ! nat (wrapIndex (bufferLength dl) (writeIndex dl - float_to_int d + 1)))
       (buffer dl ! nat (wrapIndex (bufferLength dl) (writeIndex dl - float_to_int d)))
       (buffer dl ! nat (wrapIndex (bufferLength dl) (writeIndex dl - float_to_int d - 1)))
       (buffer dl ! nat (wrapIndex (bufferLength dl) (writeIndex dl - float_to_int d - 2)))
       (d - real_of_int (float_to_int d)))"
proof -
  note n = read_pre_integerDelay [OF pre]
  have r: "- bufferLength dl \<le> writeIndex dl - float_to_int d + k \<and>
           writeIndex dl - float_to_int d + k < bufferLength dl"
    if "- 2 \<le> k" "k \<le> 1" for k
    using n wi that by linarith
  have f: "fetch dl (wrapIndex (bufferLength dl) (writeIndex dl - float_to_int d + k)) =
           Some (buffer dl ! nat (wrapIndex (bufferLength dl) (writeIndex dl - float_to_int d + k)))"
    if "- 2 \<le> k" "k \<le> 1" for k
    using r [OF that] by (intro fetch_in_range [OF wf] wrapIndex_range) simp_all
  from f [of 1] f [of 0] f [of "-1"] f [of "-2"] show ?thesis
    by (simp add: DelayLine_read_def readIndices_wrap)
qed

text \<open>
  Claim C10. Under the precondition of \<open>read\<close> (\<open>1 \<le> delayInSamples \<le> bufferLength - 2\<close>)
  and with \<open>0 \<le> writeIndex < bufferLength\<close>, the nested wrap-around adjustment leaves
  each of the four read indices in \<open>[0, bufferLength)\<close>; the nesting loses nothing, each
  index being what its own adjustment \<open>wrapIndex\<close> gives; and when the array has
  \<open>bufferLength\<close> elements each of the four accesses is inside it, so \<open>read\<close> returns a
  value.
\<close>

theorem read_indices_in_bounds:
  assumes pre: "read_pre delayInSamples dl"
    and wi: "0 \<le> writeIndex dl" "writeIndex dl < bufferLength dl"
    and idx: "readIndices delayInSamples dl = (a, b, c, d)"
  shows "0 \<le> a \<and> a < bufferLength dl \<and> 0 \<le> b \<and> b < bufferLength dl \<and>
         0 \<le> c \<and> c < bufferLength dl \<and> 0 \<le> d \<and> d < bufferLength dl \<and>
         (a, b, c, d) =
           (wrapIndex (bufferLength dl) (writeIndex dl - float_to_int delayInSamples + 1),
            wrapIndex (bufferLength dl) (writeIndex dl - float_to_int delayInSamples),
            wrapIndex (bufferLength dl) (writeIndex dl - float_to_int delayInSamples - 1),
            wrapIndex (bufferLength dl) (writeIndex dl - float_to_int delayInSamples - 2)) \<and>
         (DelayLine_wf dl \<longrightarrow> DelayLine_read delayInSamples dl \<noteq> None)"
proof -
  note n = read_pre_integerDelay [OF pre]
  have eq: "(a, b, c, d) =
           (wrapIndex (bufferLength dl) (writeIndex dl - float_to_int delayInSamples + 1),
            wrapIndex (bufferLength dl) (writeIndex dl - float_to_int delayInSamples),
            wrapIndex (bufferLength dl) (writeIndex dl - float_to_int delayInSamples - 1),
            wrapIndex (bufferLength dl) (writeIndex dl - float_to_int delayInSamples - 2))"
    using idx by (simp add: readIndices_wrap)
  have bounds: "0 \<le> a \<and> a < bufferLength dl \<and> 0 \<le> b \<and> b < bufferLength dl \<and>
         0 \<le> c \<and> c < bufferLength dl \<and> 0 \<le> d \<and> d < bufferLength dl"
    using eq n wi by (auto simp: wrapIndex_def)
  have "DelayLine_read delayInSamples dl \<noteq> None" if "DelayLine_wf dl"
    using DelayLine_read_in_range [OF pre that wi] by simp
  with bounds eq show ?thesis by blast
qed

theorem read_indices_in_bounds_witness:
  "read_pre (5/2) \<lparr>buffer = [1, 2, 3, 4, 5, 6], bufferLength = 6, writeIndex = 1\<rparr> \<and>
   readIndices (5/2) \<lparr>buffer = [1, 2, 3, 4, 5, 6], bufferLength = 6, writeIndex = 1\<rparr> = (0, 5, 4, 3) \<and>
   DelayLine_read (5/2) \<lparr>buffer = [1, 2, 3, 4, 5, 6], bufferLength = 6, writeIndex = 1\<rparr> \<noteq> None"
proof -
  let ?dl = "\<lparr>buffer = [1, 2, 3, 4, 5, 6], bufferLength = 6, writeIndex = 1\<rparr>"
  have fl: "float_to_int (5/2) = 2" by (simp add: float_to_int_def)
  have pre: "read_pre (5/2) ?dl" by (simp add: read_pre_def)
  have idx: "readIndices (5/2) ?dl = (0, 5, 4, 3)" by (simp add: readIndices_def fl)
  have wf: "DelayLine_wf ?dl" by (simp add: DelayLine_wf_def)
  from read_indices_in_bounds [OF pre _ _ idx] wf
  have "DelayLine_read (5/2) ?dl \<noteq> None" by simp
  with pre idx show ?thesis by blast
qed

subsection \<open>A reset delay line after a sequence of writes\<close>

lemma clear_from_length [simp]: "length (clear_from i n b) = length b"
  by (induction n arbitrary: i b) simp_all

lemma write_all_append:
  "write_all (xs @ ys) dl = (case write_all xs dl of None \<Rightarrow> None | Some dl' \<Rightarrow> write_all ys dl')"
  by (induction xs arbitrary: dl) (simp_all split: option.splits)

lemma written_reset:
  assumes "DelayLine_wf dl" and "0 < bufferLength dl"
  shows "written (bufferLength dl) [] (DelayLine_reset dl)"
proof -
  from assms(2) have "(- 1) mod bufferLength dl = bufferLength dl - 1"
    by (metis int_one_le_iff_zero_less mod_minus1_right zmod_minus1)
  with assms show ?thesis
    by (simp add: written_def DelayLine_reset_def DelayLine_wf_def)
qed

lemma written_step:
  assumes w: "written len ss dl" and len: "0 < len"
  shows "\<exists>dl'. DelayLine_write x dl = Some dl' \<and> written len (ss @ [x]) dl'"
proof -
  let ?k = "int (length ss)"
  from w have bl: "bufferLength dl = len" and wf: "int (length (buffer dl)) = len"
    and wi: "writeIndex dl = (?k - 1) mod len"
    and old: "\<And>j. j < length ss \<Longrightarrow> length ss \<le> j + nat len \<Longrightarrow>
                buffer dl ! nat (int j mod len) = ss ! j"
    by (simp_all add: written_def DelayLine_wf_def)
  have next_idx: "(if writeIndex dl + 1 \<ge> len then 0 else writeIndex dl + 1) = ?k mod len"
  proof -
    define r where "r = (?k - 1) mod len"
    have r: "0 \<le> r" "r < len" using len by (simp_all add: r_def)
    have "(r + 1) mod len = (?k - 1 + 1) mod len"
      unfolding r_def by (rule mod_add_left_eq)
    then have km: "?k mod len = (r + 1) mod len" by simp
    show ?thesis
    proof (cases "r + 1 \<ge> len")
      case True
      with r have "r + 1 = len" by simp
      then have "(r + 1) mod len = 0" by simp
      with True km show ?thesis by (simp add: wi r_def)
    next
      case False
      with r have "(r + 1) mod len = r + 1" by (intro mod_pos_pos_trivial) simp_all
      with False km show ?thesis by (simp add: wi r_def)
    qed
  qed
  have inb: "0 \<le> ?k mod len" "nat (?k mod len) < length (buffer dl)"
    using len wf by (simp_all add: nat_less_iff)
  define dl' where "dl' = dl\<lparr>writeIndex := ?k mod len,
                             buffer := (buffer dl)[nat (?k mod len) := x]\<rparr>"
  have wr: "DelayLine_write x dl = Some dl'"
    using inb next_idx by (simp add: DelayLine_write_def bl dl'_def Let_def)
  have new: "buffer dl' ! nat (int j mod len) = (ss @ [x]) ! j"
    if j: "j < length (ss @ [x])" and keep: "length (ss @ [x]) \<le> j + nat len" for j
  proof (cases "j = length ss")
    case True
    with inb show ?thesis by (simp add: dl'_def)
  next
    case False
    with j have jl: "j < length ss" by simp
    from keep have keep': "length ss \<le> j + nat len" by simp
    have "int j mod len \<noteq> ?k mod len"
    proof
      assume "int j mod len = ?k mod len"
      then have "len dvd (int j - ?k)" by (simp add: mod_eq_dvd_iff)
      then have "len dvd (?k - int j)" by (simp add: dvd_diff_commute)
      moreover have "0 < ?k - int j" using jl by simp
      moreover have "?k - int j < len" using keep len by simp
      ultimately show False by (meson zdvd_not_zless)
    qed
    moreover have "0 \<le> int j mod len" "0 \<le> ?k mod len" using len by simp_all
    ultimately have "nat (int j mod len) \<noteq> nat (?k mod len)" by simp
    with old [OF jl keep'] jl show ?thesis by (simp add: dl'_def nth_append)
  qed
  have "written len (ss @ [x]) dl'"
    unfolding written_def using new bl wf by (simp add: dl'_def DelayLine_wf_def)
  with wr show ?thesis by blast
qed

lemma written_write_all:
  assumes "written len [] dl" and "0 < len"
  shows "\<exists>dl'. write_all ss dl = Some dl' \<and> written len ss dl'"
proof (induction ss rule: rev_induct)
  case Nil
  with assms show ?case by simp
next
  case (snoc x ss)
  then obtain dl1 where a: "write_all ss dl = Some dl1" and b: "written len ss dl1" by blast
  from written_step [OF b assms(2), of x]
  obtain dl2 where "DelayLine_write x dl1 = Some dl2" and "written len (ss @ [x]) dl2" by blast
  with a show ?case by (simp add: write_all_append)
qed


lemma setMaximumDelayInSamples_wf:
  assumes "DelayLine_wf dl"
  shows "DelayLine_wf (setMaximumDelayInSamples garbage n dl)"
  using assms by (simp add: setMaximumDelayInSamples_def DelayLine_wf_def Let_def)

lemma DelayLine_reset_wf:
  assumes "DelayLine_wf dl"
  shows "DelayLine_wf (DelayLine_reset dl)"
    and "bufferLength (DelayLine_reset dl) = bufferLength dl"
  using assms by (simp_all add: DelayLine_reset_def DelayLine_wf_def)

lemma float_to_int_of_int [simp]: "float_to_int (real_of_int n) = n"
  by (simp add: float_to_int_def)

lemma interpolate_fraction_0 [simp]: "interpolate sampleA sampleB sampleC sampleD 0 = sampleB"
  by (simp add: interpolate_def)

lemma written_read:
  assumes w: "written len ss dl" and pre: "read_pre d dl"
  shows "DelayLine_read d dl =
     Some (interpolate
       (buffer dl ! nat ((int (length ss) - float_to_int d) mod len))
       (buffer dl ! nat ((int (length ss) - float_to_int d - 1) mod len))
       (buffer dl ! nat ((int (length ss) - float_to_int d - 2) mod len))
       (buffer dl ! nat ((int (length ss) - float_to_int d - 3) mod len))
       (d - real_of_int (float_to_int d)))"
proof -
  let ?k = "int (length ss)" and ?n = "float_to_int d"
  from w have bl: "bufferLength dl = len" and wf: "DelayLine_wf dl"
    and wi: "writeIndex dl = (?k - 1) mod len"
    by (simp_all add: written_def)
  note n = read_pre_integerDelay [OF pre, unfolded bl]
  from n have len: "0 < len" by simp
  have wir: "0 \<le> writeIndex dl" "writeIndex dl < bufferLength dl"
    using len by (simp_all add: wi bl)
  have m: "wrapIndex len (writeIndex dl - ?n + e) = (?k - 1 - ?n + e) mod len"
    if "- 2 \<le> e" "e \<le> 1" for e
  proof -
    have "wrapIndex len (writeIndex dl - ?n + e) = (writeIndex dl - ?n + e) mod len"
      using n wir that unfolding bl by (intro wrapIndex_mod) linarith+
    also have "\<dots> = ((?k - 1) mod len + (e - ?n)) mod len" by (simp add: wi algebra_simps)
    also have "\<dots> = ((?k - 1) + (e - ?n)) mod len" by (rule mod_add_left_eq)
    finally show ?thesis by (simp add: algebra_simps)
  qed
  from m [of 1] m [of 0] m [of "-1"] m [of "-2"]
  show ?thesis
    unfolding DelayLine_read_in_range [OF pre wf wir] bl by (simp add: algebra_simps)
qed

lemma written_nth:
  assumes w: "written len ss dl" and "0 \<le> i" and "i < int (length ss)"
    and "int (length ss) \<le> i + len"
  shows "buffer dl ! nat (i mod len) = ss ! nat i"
proof -
  from w have old: "\<And>j. j < length ss \<Longrightarrow> length ss \<le> j + nat len \<Longrightarrow>
                buffer dl ! nat (int j mod len) = ss ! j"
    by (simp add: written_def)
  from assms have "nat i < length ss" "length ss \<le> nat i + nat len" by linarith+
  from old [OF this] assms(2) show ?thesis by simp
qed

lemma interpolate_ramp:
  "interpolate (\<alpha> * (p + 1) + \<beta>) (\<alpha> * p + \<beta>) (\<alpha> * (p - 1) + \<beta>) (\<alpha> * (p - 2) + \<beta>) f =
   \<alpha> * (p - f) + \<beta>"
  by (simp add: interpolate_def algebra_simps)

lemma read_ramp_fetched:
  assumes pre: "read_pre d dl" and wf: "DelayLine_wf dl"
    and wi: "0 \<le> writeIndex dl" "writeIndex dl < bufferLength dl"
    and idx: "readIndices d dl = (a, b, c, e)"
    and ramp: "buffer dl ! nat a = \<alpha> * (p + 1) + \<beta>" "buffer dl ! nat b = \<alpha> * p + \<beta>"
      "buffer dl ! nat c = \<alpha> * (p - 1) + \<beta>" "buffer dl ! nat e = \<alpha> * (p - 2) + \<beta>"
  shows "DelayLine_read d dl = Some (\<alpha> * (p - (d - real_of_int (float_to_int d))) + \<beta>)"
proof -
  from idx have "a = wrapIndex (bufferLength dl) (writeIndex dl - float_to_int d + 1)"
    "b = wrapIndex (bufferLength dl) (writeIndex dl - float_to_int d)"
    "c = wrapIndex (bufferLength dl) (writeIndex dl - float_to_int d - 1)"
    "e = wrapIndex (bufferLength dl) (writeIndex dl - float_to_int d - 2)"
    by (simp_all add: readIndices_wrap)
  with ramp show ?thesis
    unfolding DelayLine_read_in_range [OF pre wf wi] by (simp add: interpolate_ramp)
qed

lemma written_ramp_read:
  assumes w: "written len ss dl" and pre: "read_pre d dl"
    and win: "float_to_int d + 3 \<le> int (length ss)" "float_to_int d + 3 \<le> len"
    and ramp: "\<And>j. int (length ss) - float_to_int d - 3 \<le> int j \<Longrightarrow>
                   int j \<le> int (length ss) - float_to_int d \<Longrightarrow> ss ! j = \<alpha> * real j + \<beta>"
  shows "DelayLine_read d dl = Some (\<alpha> * (real (length ss) - 1 - d) + \<beta>)"
proof -
  let ?k = "int (length ss)" and ?n = "float_to_int d"
  define p where "p = real_of_int (?k - ?n - 1)"
  from w have bl: "bufferLength dl = len" by (simp add: written_def)
  note n = read_pre_integerDelay [OF pre, unfolded bl]
  have s: "buffer dl ! nat (i mod len) = \<alpha> * real_of_int i + \<beta>"
    if "?k - ?n - 3 \<le> i" "i \<le> ?k - ?n" for i
  proof -
    have "buffer dl ! nat (i mod len) = ss ! nat i"
      using n win that by (intro written_nth [OF w]) linarith+
    also have "\<dots> = \<alpha> * real (nat i) + \<beta>"
      using n win that by (intro ramp) linarith+
    also have "real (nat i) = real_of_int i"
      using win that by simp
    finally show ?thesis .
  qed
  have sA: "buffer dl ! nat ((?k - ?n) mod len) = \<alpha> * (p + 1) + \<beta>"
    unfolding p_def by (subst s) simp_all
  have sB: "buffer dl ! nat ((?k - ?n - 1) mod len) = \<alpha> * p + \<beta>"
    unfolding p_def by (subst s) simp_all
  have sC: "buffer dl ! nat ((?k - ?n - 2) mod len) = \<alpha> * (p - 1) + \<beta>"
    unfolding p_def by (subst s) simp_all
  have sD: "buffer dl ! nat ((?k - ?n - 3) mod len) = \<alpha> * (p - 2) + \<beta>"
    unfolding p_def by (subst s) simp_all
  show ?thesis
    unfolding written_read [OF w pre] sA sB sC sD interpolate_ramp
    by (simp add: p_def algebra_simps)
qed

lemma written_longest_read:
  assumes w: "written len ss dl" and pre: "read_pre d dl"
    and far: "len < float_to_int d + 3" and k: "float_to_int d < int (length ss)"
  shows "DelayLine_read d dl = Some (ss ! nat (int (length ss) - float_to_int d - 1))"
    and "d = real_of_int (float_to_int d)"
proof -
  let ?k = "int (length ss)" and ?n = "float_to_int d"
  from w have bl: "bufferLength dl = len" by (simp add: written_def)
  note n = read_pre_integerDelay [OF pre, unfolded bl]
  from pre have d: "1 \<le> d" "d \<le> real_of_int len - 2" by (simp_all add: read_pre_def bl)
  from n far have nl: "?n = len - 2" by simp
  from d(1) have "real_of_int ?n \<le> d" by (simp add: float_to_int_def)
  with d(2) nl show int: "d = real_of_int ?n" by simp
  have "buffer dl ! nat ((?k - ?n - 1) mod len) = ss ! nat (?k - ?n - 1)"
    using n k by (intro written_nth [OF w]) linarith+
  then show "DelayLine_read d dl = Some (ss ! nat (?k - ?n - 1))"
    unfolding written_read [OF w pre] using int by simp
qed

lemma written_after_reset:
  assumes wf: "DelayLine_wf dl0"
    and dl: "dl = DelayLine_reset (setMaximumDelayInSamples garbage maxLengthInSamples dl0)"
    and pos: "0 < bufferLength dl"
  shows "\<exists>dl'. write_all ss dl = Some dl' \<and> written (bufferLength dl) ss dl'"
proof -
  have wf1: "DelayLine_wf (setMaximumDelayInSamples garbage maxLengthInSamples dl0)"
    using wf by (rule setMaximumDelayInSamples_wf)
  have "written (bufferLength (setMaximumDelayInSamples garbage maxLengthInSamples dl0)) [] dl"
    unfolding dl using wf1 pos unfolding dl DelayLine_reset_wf(2) [OF wf1]
    by (rule written_reset)
  then have w0: "written (bufferLength dl) [] dl" by (simp add: dl DelayLine_reset_wf(2) [OF wf1])
  from written_write_all [OF w0 pos] show ?thesis .
qed

text \<open>
  Claim C3. A delay line that has been configured and reset, and to which the samples
  \<open>ss\<close> have then been written, returns at an integer delay \<open>N\<close> with
  \<open>1 \<le> N \<le> bufferLength - 2\<close> and \<open>N < length ss\<close> exactly the sample written \<open>N\<close> writes
  before the last one (with the samples counted from zero, the entry
  \<open>length ss - N - 1\<close> of \<open>ss\<close>): all the writes and the read succeed, and there is no
  interpolation error.
\<close>

theorem read_integer_delay_exact:
  assumes wf: "DelayLine_wf dl0"
    and dl: "dl = DelayLine_reset (setMaximumDelayInSamples garbage maxLengthInSamples dl0)"
    and N: "1 \<le> N" "N \<le> bufferLength dl - 2" "N < int (length ss)"
  shows "\<exists>dl'. write_all ss dl = Some dl' \<and>
               DelayLine_read (real_of_int N) dl' = Some (ss ! (length ss - nat N - 1))"
proof -
  let ?len = "bufferLength dl"
  from N have pos: "0 < ?len" by simp
  from written_after_reset [OF wf dl pos]
  obtain dl' where wr: "write_all ss dl = Some dl'" and w: "written ?len ss dl'" by blast
  from w have bl: "bufferLength dl' = ?len" by (simp add: written_def)
  have pre: "read_pre (real_of_int N) dl'" using N by (simp add: read_pre_def bl)
  have "buffer dl' ! nat ((int (length ss) - N - 1) mod ?len) = ss ! nat (int (length ss) - N - 1)"
    using N by (intro written_nth [OF w]) simp_all
  moreover have "nat (int (length ss) - N - 1) = length ss - nat N - 1" using N by simp
  ultimately have "DelayLine_read (real_of_int N) dl' = Some (ss ! (length ss - nat N - 1))"
    unfolding written_read [OF w pre] by simp
  with wr show ?thesis by blast
qed

theorem read_integer_delay_exact_witness:
  "DelayLine_wf DelayLine_init \<and>
   bufferLength (DelayLine_reset (setMaximumDelayInSamples (\<lambda>i. 7) 4 DelayLine_init)) = 6 \<and>
   (\<exists>dl'. write_all [1, 2, 3] (DelayLine_reset (setMaximumDelayInSamples (\<lambda>i. 7) 4 DelayLine_init))
             = Some dl' \<and>
           DelayLine_read 2 dl' = Some 1)"
proof -
  let ?dl = "DelayLine_reset (setMaximumDelayInSamples (\<lambda>i. 7) 4 DelayLine_init)"
  have wf: "DelayLine_wf DelayLine_init" by (simp add: DelayLine_wf_def DelayLine_init_def)
  have bl: "bufferLength ?dl = 6"
    by (simp add: DelayLine_reset_def setMaximumDelayInSamples_def DelayLine_init_def)
  have N: "(1::int) \<le> 2" "2 \<le> bufferLength ?dl - 2" "2 < int (length [1, 2, 3 :: real])"
    by (simp_all add: bl)
  from read_integer_delay_exact [OF wf refl N]
  have "\<exists>dl'. write_all [1, 2, 3] ?dl = Some dl' \<and> DelayLine_read 2 dl' = Some 1"
    by simp
  with wf bl show ?thesis by blast
qed

text \<open>
  Claim C4. When the samples written at the positions of the four-sample window of a
  read at delay \<open>d\<close> (the positions \<open>length ss - n - 3\<close> to \<open>length ss - n\<close>, for \<open>n\<close> the
  integer part of \<open>d\<close>) lie on an affine ramp \<open>\<alpha> * j + \<beta>\<close>, then for every delay \<open>d\<close> in the
  valid range, fractional or not, \<open>read\<close> returns exactly the value of the ramp at
  \<open>d\<close> samples before the last written sample, \<open>\<alpha> * (length ss - 1 - d) + \<beta>\<close>.
\<close>

theorem read_linear_ramp_exact:
  assumes wf: "DelayLine_wf dl0"
    and dl: "dl = DelayLine_reset (setMaximumDelayInSamples garbage maxLengthInSamples dl0)"
    and d: "1 \<le> d" "d \<le> real_of_int (bufferLength dl) - 2"
    and win: "float_to_int d + 3 \<le> int (length ss)"
    and ramp: "\<And>j. int (length ss) - float_to_int d - 3 \<le> int j \<Longrightarrow>
                   int j \<le> int (length ss) - float_to_int d \<Longrightarrow> ss ! j = \<alpha> * real j + \<beta>"
  shows "\<exists>dl'. write_all ss dl = Some dl' \<and>
               DelayLine_read d dl' = Some (\<alpha> * (real (length ss) - 1 - d) + \<beta>)"
proof -
  let ?len = "bufferLength dl" and ?k = "int (length ss)" and ?n = "float_to_int d"
  from d have pos: "0 < ?len" by linarith
  from written_after_reset [OF wf dl pos]
  obtain dl' where wr: "write_all ss dl = Some dl'" and w: "written ?len ss dl'" by blast
  from w have bl: "bufferLength dl' = ?len" by (simp add: written_def)
  have pre: "read_pre d dl'" using d by (simp add: read_pre_def bl)
  have "DelayLine_read d dl' = Some (\<alpha> * (real (length ss) - 1 - d) + \<beta>)"
  proof (cases "?n + 3 \<le> ?len")
    case True
    from w pre win True ramp show ?thesis by (rule written_ramp_read)
  next
    case False
    then have far: "?len < ?n + 3" by simp
    from win have k: "?n < ?k" by simp
    note n = read_pre_integerDelay [OF pre]
    have "ss ! nat (?k - ?n - 1) = \<alpha> * real (nat (?k - ?n - 1)) + \<beta>"
      using win n by (intro ramp) linarith+
    also have "real (nat (?k - ?n - 1)) = real_of_int (?k - ?n - 1)" using win by simp
    also have "\<dots> = real (length ss) - 1 - d"
      using written_longest_read(2) [OF w pre far k] by simp
    finally show ?thesis using written_longest_read(1) [OF w pre far k] by simp
  qed
  with wr show ?thesis by blast
qed

theorem read_linear_ramp_exact_witness:
  "DelayLine_wf DelayLine_init \<and>
   bufferLength (DelayLine_reset (setMaximumDelayInSamples (\<lambda>i. 7) 6 DelayLine_init)) = 8 \<and>
   float_to_int (3 / 2) = 1 \<and>
   (\<exists>dl'. write_all [10, 12, 14, 16, 18, 20]
             (DelayLine_reset (setMaximumDelayInSamples (\<lambda>i. 7) 6 DelayLine_init)) = Some dl' \<and>
           DelayLine_read (3 / 2) dl' = Some 17)"
proof -
  let ?dl = "DelayLine_reset (setMaximumDelayInSamples (\<lambda>i. 7) 6 DelayLine_init)"
  let ?ss = "[10, 12, 14, 16, 18, 20] :: real list"
  have wf: "DelayLine_wf DelayLine_init" by (simp add: DelayLine_wf_def DelayLine_init_def)
  have bl: "bufferLength ?dl = 8"
    by (simp add: DelayLine_reset_def setMaximumDelayInSamples_def DelayLine_init_def)
  have fl: "float_to_int (3 / 2) = 1" by (simp add: float_to_int_def)
  have d: "(1::real) \<le> 3 / 2" "(3 / 2 :: real) \<le> real_of_int (bufferLength ?dl) - 2"
    by (simp_all add: bl)
  have win: "float_to_int (3 / 2) + 3 \<le> int (length ?ss)" by (simp add: fl)
  have ramp: "?ss ! j = 2 * real j + 10"
    if "int (length ?ss) - float_to_int (3 / 2) - 3 \<le> int j"
      "int j \<le> int (length ?ss) - float_to_int (3 / 2)" for j
  proof -
    from that have "j = 2 \<or> j = 3 \<or> j = 4 \<or> j = 5" unfolding fl by simp linarith
    then show ?thesis by auto
  qed
  from read_linear_ramp_exact [OF wf refl d win ramp]
  have "\<exists>dl'. write_all ?ss ?dl = Some dl' \<and> DelayLine_read (3 / 2) dl' = Some 17"
    by simp
  with wf bl fl show ?thesis by blast
qed

section \<open>Properties of the tempo clock\<close>

text \<open>
  Claim C2, as stated: an update without transport information leaves the tempo of the
  previous query. It fails: with a previous tempo of 140 and a null play head the tempo
  afterwards is 120.
\<close>

theorem Tempo_update_retains_counterexample:
  "no_transport None \<and> getTempo (Tempo_update None \<lparr>bpm = 140\<rparr>) \<noteq> getTempo \<lparr>bpm = 140\<rparr>"
  by (simp add: no_transport_def Tempo_update_def Tempo_reset_def getTempo_def)

text \<open>
  Claim C2, amended. \<open>update\<close> resets the tempo before it looks at the play head, so an
  update without transport information leaves the default of 120 whatever the tempo was
  before; the previous tempo is what \<open>getTempo\<close> returns afterwards exactly when it was
  120 already.
\<close>

theorem Tempo_update_without_transport:
  assumes "no_transport playhead"
  shows "getTempo (Tempo_update playhead t) = 120 \<and>
         (getTempo (Tempo_update playhead t) = getTempo t) = (getTempo t = 120)"
  using assms
  by (auto simp: no_transport_def Tempo_update_def Tempo_reset_def getTempo_def
      split: option.splits)

theorem Tempo_update_without_transport_witness:
  "no_transport (Some \<lparr>getPosition = Some \<lparr>getBpm = None\<rparr>\<rparr>) \<and>
   getTempo (Tempo_update (Some \<lparr>getPosition = Some \<lparr>getBpm = None\<rparr>\<rparr>) \<lparr>bpm = 140\<rparr>) = 120"
proof -
  have h: "no_transport (Some \<lparr>getPosition = Some \<lparr>getBpm = None\<rparr>\<rparr>)"
    by (simp add: no_transport_def)
  from Tempo_update_without_transport [OF h, of "\<lparr>bpm = 140\<rparr>"] h show ?thesis by blast
qed

lemma noteLengthMultipliers_length: "length noteLengthMultipliers = 16"
  by (simp add: noteLengthMultipliers_def)

text \<open>
  Claim C7. For an index from 0 to 15 and a positive tempo,
  \<open>getMillisecondsForNoteLength\<close> returns 60000 times the entry of the table of 16
  multipliers divided by the tempo; at index 9 and 120 BPM this is 500 ms; and at half the
  tempo the result is twice as large.
\<close>

theorem getMillisecondsForNoteLength_formula:
  assumes "0 \<le> index" and "index \<le> 15" and "0 < bpm t"
  shows "getMillisecondsForNoteLength index t =
           Some (60000 * (noteLengthMultipliers ! nat index) / bpm t) \<and>
         length noteLengthMultipliers = 16 \<and>
         getMillisecondsForNoteLength 9 \<lparr>bpm = 120\<rparr> = Some 500 \<and>
         getMillisecondsForNoteLength index (t\<lparr>bpm := bpm t / 2\<rparr>) =
           map_option (\<lambda>ms. 2 * ms) (getMillisecondsForNoteLength index t)"
proof -
  have len: "length noteLengthMultipliers = 16" by (rule noteLengthMultipliers_length)
  from assms have inb: "0 \<le> index \<and> nat index < length noteLengthMultipliers" and nz: "bpm t \<noteq> 0"
    unfolding len by auto
  have a: "getMillisecondsForNoteLength index t =
           Some (60000 * (noteLengthMultipliers ! nat index) / bpm t)"
    using inb nz by (simp add: getMillisecondsForNoteLength_def)
  have b: "getMillisecondsForNoteLength 9 \<lparr>bpm = 120\<rparr> = Some 500"
    by (simp add: getMillisecondsForNoteLength_def noteLengthMultipliers_def)
  have c: "getMillisecondsForNoteLength index (t\<lparr>bpm := bpm t / 2\<rparr>) =
           map_option (\<lambda>ms. 2 * ms) (getMillisecondsForNoteLength index t)"
    using inb nz by (simp add: getMillisecondsForNoteLength_def)
  from a len b c show ?thesis by blast
qed

theorem getMillisecondsForNoteLength_formula_witness:
  "(0::int) \<le> 6 \<and> (6::int) \<le> 15 \<and> 0 < bpm \<lparr>bpm = 100\<rparr> \<and>
   getMillisecondsForNoteLength 6 \<lparr>bpm = 100\<rparr> = Some 300 \<and>
   getMillisecondsForNoteLength 6 \<lparr>bpm = 50\<rparr> = Some 600"
  using getMillisecondsForNoteLength_formula [of 6 "\<lparr>bpm = 100\<rparr>"]
  by (simp add: noteLengthMultipliers_def)

section \<open>Properties of the peak tracker\<close>

text \<open>
  On one thread the loop of \<open>updateIfGreater\<close> ends as soon as one attempt does not fail
  spuriously, and it leaves the larger of the stored and the new value.
\<close>

lemma updateIfGreater_loop_max:
  assumes "False \<in> set schedule" and "oldValue = atomic_value m"
  shows "updateIfGreater_loop schedule newValue oldValue m =
         Some (m\<lparr>atomic_value := max (atomic_value m) newValue\<rparr>)"
  using assms
proof (induction schedule arbitrary: oldValue)
  case Nil
  then show ?case by simp
next
  case (Cons spurious schedule)
  show ?case
  proof (cases "newValue > oldValue")
    case False
    with Cons.prems show ?thesis by (simp add: max_def)
  next
    case True
    show ?thesis
    proof (cases spurious)
      case True
      with Cons.prems have "False \<in> set schedule" by auto
      from Cons.IH [OF this Cons.prems(2)] True \<open>newValue > oldValue\<close> Cons.prems(2)
      show ?thesis by (simp add: compare_exchange_weak_def)
    next
      case False
      with \<open>newValue > oldValue\<close> Cons.prems(2) show ?thesis
        by (simp add: compare_exchange_weak_def max_def)
    qed
  qed
qed

text \<open>
  Claim C8. On one thread, with schedules in which some attempt is not a spurious failure:
  \<open>updateIfGreater v\<close> leaves the maximum of the stored value and \<open>v\<close>; \<open>readAndReset\<close>
  returns the stored value and leaves zero; and from a reset tracker the updates 0.2, 0.9,
  0.5 followed by \<open>readAndReset\<close> give 0.9, and a second \<open>readAndReset\<close> gives 0.
\<close>

theorem peak_tracker_single_thread:
  assumes "False \<in> set schedule" and "False \<in> set s1" and "False \<in> set s2" and "False \<in> set s3"
  shows "updateIfGreater schedule v m = Some (m\<lparr>atomic_value := max (atomic_value m) v\<rparr>) \<and>
         readAndReset m = (atomic_value m, m\<lparr>atomic_value := 0\<rparr>) \<and>
         (\<exists>m1 m2 m3.
            updateIfGreater s1 0.2 (Measurement_reset m) = Some m1 \<and>
            updateIfGreater s2 0.9 m1 = Some m2 \<and>
            updateIfGreater s3 0.5 m2 = Some m3 \<and>
            fst (readAndReset m3) = 0.9 \<and>
            fst (readAndReset (snd (readAndReset m3))) = 0)"
proof -
  have gen: "updateIfGreater s x k = Some (k\<lparr>atomic_value := max (atomic_value k) x\<rparr>)"
    if "False \<in> set s" for s x k
    unfolding updateIfGreater_def using that by (rule updateIfGreater_loop_max) simp
  define m1 where "m1 = (Measurement_reset m)\<lparr>atomic_value := max (atomic_value (Measurement_reset m)) 0.2\<rparr>"
  define m2 where "m2 = m1\<lparr>atomic_value := max (atomic_value m1) 0.9\<rparr>"
  define m3 where "m3 = m2\<lparr>atomic_value := max (atomic_value m2) 0.5\<rparr>"
  have "updateIfGreater s1 0.2 (Measurement_reset m) = Some m1"
    unfolding m1_def by (rule gen [OF assms(2)])
  moreover have "updateIfGreater s2 0.9 m1 = Some m2"
    unfolding m2_def by (rule gen [OF assms(3)])
  moreover have "updateIfGreater s3 0.5 m2 = Some m3"
    unfolding m3_def by (rule gen [OF assms(4)])
  moreover have "fst (readAndReset m3) = 0.9"
    by (simp add: m3_def m2_def m1_def readAndReset_def Measurement_reset_def)
  moreover have "fst (readAndReset (snd (readAndReset m3))) = 0"
    by (simp add: readAndReset_def)
  ultimately have ex: "\<exists>m1 m2 m3.
            updateIfGreater s1 0.2 (Measurement_reset m) = Some m1 \<and>
            updateIfGreater s2 0.9 m1 = Some m2 \<and>
            updateIfGreater s3 0.5 m2 = Some m3 \<and>
            fst (readAndReset m3) = 0.9 \<and>
            fst (readAndReset (snd (readAndReset m3))) = 0" by blast
  from gen [OF assms(1)] ex show ?thesis by (simp add: readAndReset_def)
qed

theorem peak_tracker_single_thread_witness:
  "False \<in> set [True, False] \<and> False \<in> set [False] \<and>
   updateIfGreater [True, False] 0.7 \<lparr>atomic_value = 0.3\<rparr> = Some \<lparr>atomic_value = 0.7\<rparr> \<and>
   updateIfGreater [False] 0.2 \<lparr>atomic_value = 0.3\<rparr> = Some \<lparr>atomic_value = 0.3\<rparr>"
proof -
  have a: "False \<in> set [True, False]" and b: "False \<in> set [False]" by simp_all
  from peak_tracker_single_thread [OF a b b b, of "0.7" "\<lparr>atomic_value = 0.3\<rparr>"]
  have c: "updateIfGreater [True, False] 0.7 \<lparr>atomic_value = 0.3\<rparr> = Some \<lparr>atomic_value = 0.7\<rparr>"
    by simp
  from peak_tracker_single_thread [OF b b b b, of "0.2" "\<lparr>atomic_value = 0.3\<rparr>"]
  have d: "updateIfGreater [False] 0.2 \<lparr>atomic_value = 0.3\<rparr> = Some \<lparr>atomic_value = 0.3\<rparr>"
    by simp
  from a b c d show ?thesis by blast
qed

section \<open>Properties of the parameter smoothing\<close>

lemma one_pole_coeff_range:
  fixes rate :: real
  assumes "0 < rate"
  shows "0 < 1 - exp (- 1 / (0.2 * rate))" and "1 - exp (- 1 / (0.2 * rate)) < 1"
proof -
  from assms have "- 1 / (0.2 * rate) < 0" by simp
  then have "exp (- 1 / (0.2 * rate)) < 1" by (simp only: exp_less_one_iff)
  then show "0 < 1 - exp (- 1 / (0.2 * rate))" by simp
  show "1 - exp (- 1 / (0.2 * rate)) < 1" by simp
qed

lemma Parameters_prepareToPlay_coeff:
  assumes "0 < rate"
  shows "map_option coeff (Parameters_prepareToPlay J rate p) =
         Some (1 - exp (- 1 / (0.2 * rate)))"
  using assms by (simp add: Parameters_prepareToPlay_def Let_def)

lemma Parameters_smoothen_delayTime:
  "delayTime (Parameters_smoothen J p) =
     delayTime p + (targetDelayTime p - delayTime p) * coeff p"
  "targetDelayTime (Parameters_smoothen J p) = targetDelayTime p"
  "coeff (Parameters_smoothen J p) = coeff p"
  "tempoSync (Parameters_smoothen J p) = tempoSync p"
  "delayNote (Parameters_smoothen J p) = delayNote p"
  by (simp_all add: Parameters_smoothen_def Let_def split: prod.splits)

lemma smoothen_steps_Suc:
  "smoothen_steps J (Suc n) p = Parameters_smoothen J (smoothen_steps J n p)"
  by (simp add: smoothen_steps_def)

lemma smoothen_steps_fixed:
  "targetDelayTime (smoothen_steps J n p) = targetDelayTime p"
  "coeff (smoothen_steps J n p) = coeff p"
proof (induction n)
  case 0
  show "targetDelayTime (smoothen_steps J 0 p) = targetDelayTime p"
    and "coeff (smoothen_steps J 0 p) = coeff p"
    by (simp_all add: smoothen_steps_def)
next
  case (Suc n)
  show "targetDelayTime (smoothen_steps J (Suc n) p) = targetDelayTime p"
    using Suc(1) by (simp add: smoothen_steps_Suc Parameters_smoothen_delayTime)
  show "coeff (smoothen_steps J (Suc n) p) = coeff p"
    using Suc(2) by (simp add: smoothen_steps_Suc Parameters_smoothen_delayTime)
qed

lemma smoothen_steps_delayTime_Suc:
  "delayTime (smoothen_steps J (Suc n) p) =
     delayTime (smoothen_steps J n p) +
     (targetDelayTime p - delayTime (smoothen_steps J n p)) * coeff p"
  by (simp add: smoothen_steps_Suc Parameters_smoothen_delayTime smoothen_steps_fixed)

lemma smoothen_steps_closed_form:
  "delayTime (smoothen_steps J n p) - targetDelayTime p =
     (delayTime p - targetDelayTime p) * (1 - coeff p) ^ n"
proof (induction n)
  case 0
  show ?case by (simp add: smoothen_steps_def)
next
  case (Suc n)
  have "delayTime (smoothen_steps J (Suc n) p) - targetDelayTime p =
        (delayTime (smoothen_steps J n p) - targetDelayTime p) * (1 - coeff p)"
    unfolding smoothen_steps_delayTime_Suc by (simp add: algebra_simps)
  then show ?case unfolding Suc.IH by simp
qed

text \<open>
  Claim C5. For a positive sample rate the one-pole coefficient that \<open>prepareToPlay\<close>
  computes, \<open>1 - exp (- 1 / (0.2 * rate))\<close>, lies strictly between 0 and 1. With the target
  held fixed, each step of \<open>smoothen\<close> adds \<open>(target - current) * coeff\<close> to the current
  delay time; after \<open>n\<close> steps the distance to the target is the initial one times
  \<open>(1 - coeff) ^ n\<close>; the distance never grows, and the current value stays on the side
  of the target where it started, moving toward it without passing it.
\<close>

theorem delayTime_smoothing_monotone:
  assumes pos: "0 < rate"
    and c: "coeff p = 1 - exp (- 1 / (0.2 * rate))"
  shows "map_option coeff (Parameters_prepareToPlay J rate p0) = Some (coeff p) \<and>
         0 < coeff p \<and> coeff p < 1 \<and>
         targetDelayTime (smoothen_steps J n p) = targetDelayTime p \<and>
         delayTime (smoothen_steps J (Suc n) p) =
           delayTime (smoothen_steps J n p) +
           (targetDelayTime p - delayTime (smoothen_steps J n p)) * coeff p \<and>
         delayTime (smoothen_steps J n p) - targetDelayTime p =
           (delayTime p - targetDelayTime p) * (1 - coeff p) ^ n \<and>
         \<bar>targetDelayTime p - delayTime (smoothen_steps J (Suc n) p)\<bar> \<le>
           \<bar>targetDelayTime p - delayTime (smoothen_steps J n p)\<bar> \<and>
         (delayTime p \<le> targetDelayTime p \<longrightarrow>
            delayTime (smoothen_steps J n p) \<le> delayTime (smoothen_steps J (Suc n) p) \<and>
            delayTime (smoothen_steps J (Suc n) p) \<le> targetDelayTime p) \<and>
         (targetDelayTime p \<le> delayTime p \<longrightarrow>
            targetDelayTime p \<le> delayTime (smoothen_steps J (Suc n) p) \<and>
            delayTime (smoothen_steps J (Suc n) p) \<le> delayTime (smoothen_steps J n p))"
proof -
  let ?t = "targetDelayTime p" and ?c = "coeff p"
  let ?x = "delayTime (smoothen_steps J n p)" and ?y = "delayTime (smoothen_steps J (Suc n) p)"
  from one_pole_coeff_range [OF pos] have c01: "0 < ?c" "?c < 1" by (simp_all add: c)
  have prep: "map_option coeff (Parameters_prepareToPlay J rate p0) = Some ?c"
    unfolding c using pos by (rule Parameters_prepareToPlay_coeff)
  have step: "?y = ?x + (?t - ?x) * ?c" by (rule smoothen_steps_delayTime_Suc)
  have closed: "?x - ?t = (delayTime p - ?t) * (1 - ?c) ^ n"
    by (rule smoothen_steps_closed_form)
  have d: "?t - ?y = (?t - ?x) * (1 - ?c)" unfolding step by (simp add: algebra_simps)
  have "\<bar>?t - ?y\<bar> = \<bar>?t - ?x\<bar> * (1 - ?c)" unfolding d using c01 by (simp add: abs_mult)
  also have "\<dots> \<le> \<bar>?t - ?x\<bar> * 1" using c01 by (intro mult_left_mono) simp_all
  finally have dist: "\<bar>?t - ?y\<bar> \<le> \<bar>?t - ?x\<bar>" by simp
  have pw: "0 \<le> (1 - ?c) ^ n" using c01 by simp
  have below: "?x \<le> ?y \<and> ?y \<le> ?t" if "delayTime p \<le> ?t"
  proof -
    from that pw have "(delayTime p - ?t) * (1 - ?c) ^ n \<le> 0"
      by (intro mult_nonpos_nonneg) simp_all
    with closed have x: "0 \<le> ?t - ?x" by simp
    with c01 have "0 \<le> (?t - ?x) * ?c" "0 \<le> (?t - ?x) * (1 - ?c)" by simp_all
    with step d show ?thesis by linarith
  qed
  have above: "?t \<le> ?y \<and> ?y \<le> ?x" if "?t \<le> delayTime p"
  proof -
    from that pw have "0 \<le> (delayTime p - ?t) * (1 - ?c) ^ n" by simp
    with closed have x: "?t - ?x \<le> 0" by simp
    with c01 have "(?t - ?x) * ?c \<le> 0" "(?t - ?x) * (1 - ?c) \<le> 0"
      by (simp_all add: mult_le_0_iff)
    with step d show ?thesis by linarith
  qed
  from prep c01 smoothen_steps_fixed(1) [of J n p] step closed dist below above
  show ?thesis by blast
qed

theorem delayTime_smoothing_monotone_witness:
  "(0::real) < 48000 \<and> coeff Parameters_example = 1 - exp (- 1 / (0.2 * 48000)) \<and>
   delayTime Parameters_example \<le> targetDelayTime Parameters_example \<and>
   delayTime (smoothen_steps JUCE_plain 0 Parameters_example) = 100 \<and>
   targetDelayTime Parameters_example = 200 \<and>
   100 \<le> delayTime (smoothen_steps JUCE_plain (Suc 0) Parameters_example) \<and>
   delayTime (smoothen_steps JUCE_plain (Suc 0) Parameters_example) \<le> 200"
proof -
  have r: "(0::real) < 48000" by simp
  have c: "coeff Parameters_example = 1 - exp (- 1 / (0.2 * 48000))"
    by (simp add: Parameters_example_def)
  have le: "delayTime Parameters_example \<le> targetDelayTime Parameters_example"
    by (simp add: Parameters_example_def)
  have s0: "delayTime (smoothen_steps JUCE_plain 0 Parameters_example) = 100"
    by (simp add: smoothen_steps_def Parameters_example_def)
  have t: "targetDelayTime Parameters_example = 200" by (simp add: Parameters_example_def)
  from delayTime_smoothing_monotone [OF r c, of JUCE_plain Parameters_example 0] le
  have "delayTime (smoothen_steps JUCE_plain 0 Parameters_example)
          \<le> delayTime (smoothen_steps JUCE_plain (Suc 0) Parameters_example) \<and>
        delayTime (smoothen_steps JUCE_plain (Suc 0) Parameters_example)
          \<le> targetDelayTime Parameters_example"
    by blast
  with r c le s0 t show ?thesis by simp
qed

section \<open>Properties of the equal-power panner\<close>

text \<open>
  The angle constant of the panner is the single precision number nearest to \<open>pi / 4\<close>.
  To compare the two, \<open>pi\<close> is enclosed by Machin's formula and partial sums of the
  arctangent series.
\<close>

lemma arctan_partial_sums:
  fixes x :: real
  assumes x: "0 \<le> x" "x \<le> 1"
  shows "(\<Sum>i<2*n. (-1)^i * (1 / real (i * 2 + 1) * x ^ (i * 2 + 1))) \<le> arctan x"
    and "arctan x \<le> (\<Sum>i<2*n+1. (-1)^i * (1 / real (i * 2 + 1) * x ^ (i * 2 + 1)))"
proof -
  let ?a = "\<lambda>n. 1 / real (n * 2 + 1) * x ^ (n * 2 + 1)"
  from x have ax: "\<bar>x\<bar> \<le> 1" by simp
  have zero: "?a \<longlonglongrightarrow> 0" using ax by (rule zeroseq_arctan_series)
  have nonneg: "0 \<le> ?a n" for n using x by simp
  have mono: "?a (Suc n) \<le> ?a n" for n
  proof -
    have "x ^ (Suc n * 2 + 1) = x ^ (n * 2 + 1) * (x * x)" by (simp add: power_add)
    also have "\<dots> \<le> x ^ (n * 2 + 1) * 1"
      using x by (intro mult_left_mono mult_le_one) simp_all
    finally have p: "x ^ (Suc n * 2 + 1) \<le> x ^ (n * 2 + 1)" by simp
    have "1 / real (Suc n * 2 + 1) \<le> 1 / real (n * 2 + 1)"
      by (intro divide_left_mono) simp_all
    with p show ?thesis using x by (intro mult_mono) simp_all
  qed
  have ser: "arctan x = (\<Sum>k. (-1)^k * ?a k)" using ax by (rule arctan_series)
  show "(\<Sum>i<2*n. (-1)^i * ?a i) \<le> arctan x"
    unfolding ser using zero nonneg mono by (rule summable_Leibniz'(2))
  show "arctan x \<le> (\<Sum>i<2*n+1. (-1)^i * ?a i)"
    unfolding ser using zero nonneg mono by (rule summable_Leibniz'(4))
qed

lemma arctan_fifth_bounds:
  "197395559849 / 1000000000000 \<le> arctan (1 / 5)"
  "arctan (1 / 5) \<le> 197395559850 / 1000000000000"
proof -
  have "(197395559849 / 1000000000000 :: real) \<le>
        (\<Sum>i<2*4. (-1)^i * (1 / real (i * 2 + 1) * (1 / 5) ^ (i * 2 + 1)))"
    by (simp add: eval_nat_numeral)
  also have "\<dots> \<le> arctan (1 / 5)" by (rule arctan_partial_sums) simp_all
  finally show "197395559849 / 1000000000000 \<le> arctan (1 / 5)" .
  have "arctan (1 / 5) \<le> (\<Sum>i<2*4+1. (-1)^i * (1 / real (i * 2 + 1) * (1 / 5) ^ (i * 2 + 1)))"
    by (rule arctan_partial_sums) simp_all
  also have "\<dots> \<le> (197395559850 / 1000000000000 :: real)"
    by (simp add: eval_nat_numeral)
  finally show "arctan (1 / 5) \<le> 197395559850 / 1000000000000" .
qed

lemma arctan_239th_bounds:
  "4184076002 / 1000000000000 \<le> arctan (1 / 239)"
  "arctan (1 / 239) \<le> 4184076003 / 1000000000000"
proof -
  have "(4184076002 / 1000000000000 :: real) \<le>
        (\<Sum>i<2*2. (-1)^i * (1 / real (i * 2 + 1) * (1 / 239) ^ (i * 2 + 1)))"
    by (simp add: eval_nat_numeral)
  also have "\<dots> \<le> arctan (1 / 239)" by (rule arctan_partial_sums) simp_all
  finally show "4184076002 / 1000000000000 \<le> arctan (1 / 239)" .
  have "arctan (1 / 239) \<le> (\<Sum>i<2*1+1. (-1)^i * (1 / real (i * 2 + 1) * (1 / 239) ^ (i * 2 + 1)))"
    by (rule arctan_partial_sums) simp_all
  also have "\<dots> \<le> (4184076003 / 1000000000000 :: real)"
    by (simp add: eval_nat_numeral)
  finally show "arctan (1 / 239) \<le> 4184076003 / 1000000000000" .
qed

lemma quarter_pi_bounds:
  "785398163393 / 1000000000000 \<le> pi / 4" "pi / 4 \<le> 785398163398 / 1000000000000"
  using arctan_fifth_bounds arctan_239th_bounds unfolding machin by simp_all

lemma quarter_pi_binary32:
  "0 < 13176795 / 16777216 - pi / 4" "13176795 / 16777216 - pi / 4 \<le> 22 / 1000000000"
  using quarter_pi_bounds by linarith+

lemma cos_lipschitz: "\<bar>cos w - cos z\<bar> \<le> \<bar>w - z\<bar>" for w z :: real
proof -
  have "\<bar>cos w - cos z\<bar> = 2 * \<bar>sin ((w + z) / 2)\<bar> * \<bar>sin ((z - w) / 2)\<bar>"
    by (simp add: cos_diff_cos abs_mult)
  also have "\<dots> \<le> 2 * 1 * \<bar>(z - w) / 2\<bar>"
    by (intro mult_mono abs_sin_x_le_abs_x) simp_all
  finally show ?thesis by simp
qed

lemma sin_lipschitz: "\<bar>sin w - sin z\<bar> \<le> \<bar>w - z\<bar>" for w z :: real
proof -
  have "\<bar>sin w - sin z\<bar> = 2 * \<bar>sin ((w - z) / 2)\<bar> * \<bar>cos ((w + z) / 2)\<bar>"
    by (simp add: sin_diff_sin abs_mult)
  also have "\<dots> \<le> 2 * \<bar>(w - z) / 2\<bar> * 1"
    by (intro mult_mono abs_sin_x_le_abs_x) simp_all
  finally show ?thesis by simp
qed

text \<open>
  With the constant above \<open>pi / 4\<close>, the angle at pan 1 lies beyond \<open>pi / 2\<close>: the left
  gain there is not zero but slightly negative.
\<close>

lemma panningEqualPower_full_right_left_gain: "fst (panningEqualPower 1) < 0"
proof -
  define q :: real where "q = 13176795 / 16777216"
  have q: "0 < q - pi / 4" "q - pi / 4 \<le> 22 / 1000000000"
    unfolding q_def by (rule quarter_pi_binary32)+
  have "pi / 2 < q * 2" using q(1) by linarith
  moreover have "q * 2 < pi" using q(2) pi_ge_two by linarith
  ultimately have "0 < sin (q * 2 - pi / 2)" by (intro sin_gt_zero) linarith+
  then have "cos (q * 2) < 0" by (simp add: sin_diff)
  then show ?thesis by (simp add: panningEqualPower_def q_def Let_def)
qed

text \<open>
  Claim C6. The panner is a function of its input alone, and for every pan value (in
  \<open>[-1, 1]\<close> or not) the squares of the two gains add up to 1. At \<open>-1\<close> the gains are
  exactly \<open>(1, 0)\<close>. At \<open>1\<close> they are \<open>(0, 1)\<close> and at \<open>0\<close> both are \<open>sqrt 2 / 2\<close>, each
  within \<open>10^-7\<close>, the tolerance of single precision: the constant of the source is
  \<open>pi / 4\<close> rounded to single precision, about \<open>2.2 * 10^-8\<close> above it.
\<close>

theorem panningEqualPower_gains:
  "(fst (panningEqualPower x))\<^sup>2 + (snd (panningEqualPower x))\<^sup>2 = 1 \<and>
   panningEqualPower (- 1) = (1, 0) \<and>
   \<bar>fst (panningEqualPower 1)\<bar> \<le> 1 / 10 ^ 7 \<and>
   \<bar>snd (panningEqualPower 1) - 1\<bar> \<le> 1 / 10 ^ 7 \<and>
   \<bar>fst (panningEqualPower 0) - sqrt 2 / 2\<bar> \<le> 1 / 10 ^ 7 \<and>
   \<bar>snd (panningEqualPower 0) - sqrt 2 / 2\<bar> \<le> 1 / 10 ^ 7"
proof -
  define q :: real where "q = 13176795 / 16777216"
  have pan: "panningEqualPower y = (cos (q * (y + 1)), sin (q * (y + 1)))" for y
    by (simp add: panningEqualPower_def q_def Let_def)
  have ten: "(1 / 10 ^ 7 :: real) = 1 / 10000000" by simp
  have qb: "0 < q - pi / 4" "q - pi / 4 \<le> 22 / 1000000000"
    unfolding q_def by (rule quarter_pi_binary32)+
  have two: "\<bar>q * 2 - pi / 2\<bar> \<le> 1 / 10 ^ 7" and one: "\<bar>q - pi / 4\<bar> \<le> 1 / 10 ^ 7"
    unfolding ten using qb by linarith+
  have power: "(fst (panningEqualPower x))\<^sup>2 + (snd (panningEqualPower x))\<^sup>2 = 1"
    by (simp add: pan)
  have left: "panningEqualPower (- 1) = (1, 0)"
    by (simp add: pan)
  have "\<bar>cos (q * 2) - cos (pi / 2)\<bar> \<le> \<bar>q * 2 - pi / 2\<bar>" by (rule cos_lipschitz)
  with two have l1: "\<bar>fst (panningEqualPower 1)\<bar> \<le> 1 / 10 ^ 7"
    by (simp add: pan)
  have "\<bar>sin (q * 2) - sin (pi / 2)\<bar> \<le> \<bar>q * 2 - pi / 2\<bar>" by (rule sin_lipschitz)
  with two have r1: "\<bar>snd (panningEqualPower 1) - 1\<bar> \<le> 1 / 10 ^ 7"
    by (simp add: pan)
  have "\<bar>cos q - cos (pi / 4)\<bar> \<le> \<bar>q - pi / 4\<bar>" by (rule cos_lipschitz)
  with one have l0: "\<bar>fst (panningEqualPower 0) - sqrt 2 / 2\<bar> \<le> 1 / 10 ^ 7"
    by (simp add: pan cos_45)
  have "\<bar>sin q - sin (pi / 4)\<bar> \<le> \<bar>q - pi / 4\<bar>" by (rule sin_lipschitz)
  with one have r0: "\<bar>snd (panningEqualPower 0) - sqrt 2 / 2\<bar> \<le> 1 / 10 ^ 7"
    by (simp add: pan sin_45)
  from power left l1 r1 l0 r0 show ?thesis by blast
qed

section \<open>Properties of the processing loop\<close>

subsection \<open>One pass through the body of the loop\<close>

lemma processBlock_sample_SomeD:
  assumes "processBlock_sample J syncedTime (dryL, dryR) pr = Some (pr', out, d)"
  shows "params pr' = Parameters_smoothen J (params pr)"
    and "d = (if tempoSync (params pr') then syncedTime else delayTime (params pr')) / 1000
               * sampleRate pr"
    and "DelayLine_write ((dryL + dryR) * 0.5 * panL (params pr') + feedbackR pr) (delayLineL pr)
           = Some (delayLineL pr')"
    and "DelayLine_write ((dryL + dryR) * 0.5 * panR (params pr') + feedbackL pr) (delayLineR pr)
           = Some (delayLineR pr')"
    and "DelayLine_read d (delayLineL pr') \<noteq> None"
    and "DelayLine_read d (delayLineR pr') \<noteq> None"
    and "sampleRate pr' = sampleRate pr"
    and "tempo pr' = tempo pr"
    and "levelL pr' = levelL pr"
    and "levelR pr' = levelR pr"
  using assms
  by (auto simp: processBlock_sample_def Let_def split: option.splits prod.splits if_splits)

lemma processBlock_sample_feedback:
  assumes "processBlock_sample J syncedTime (dryL, dryR) pr = Some (pr', out, d)"
  shows "\<exists>wetL wetR lowCutL highCutL lowCutR highCutR.
           DelayLine_read d (delayLineL pr') = Some wetL \<and>
           DelayLine_read d (delayLineR pr') = Some wetR \<and>
           feedbackL pr' = fst (processSample J 0
             (fst (processSample J 0 (wetL * feedback (params pr')) lowCutL)) highCutL) \<and>
           feedbackR pr' = fst (processSample J 1
             (fst (processSample J 1 (wetR * feedback (params pr')) lowCutR)) highCutR)"
proof -
  define p where "p = Parameters_smoothen J (params pr)"
  define lc where "lc = (if lowCut p \<noteq> lastLowCut pr
    then setCutoffFrequency J (lowCut p) (lowCutFilter pr) else lowCutFilter pr)"
  define hc where "hc = (if highCut p \<noteq> lastHighCut pr
    then setCutoffFrequency J (highCut p) (highCutFilter pr) else highCutFilter pr)"
  from assms obtain wetL wetR where
    rl: "DelayLine_read d (delayLineL pr') = Some wetL"
    and rr: "DelayLine_read d (delayLineR pr') = Some wetR"
    and fl: "feedbackL pr' = fst (processSample J 0
               (fst (processSample J 0 (wetL * feedback p) lc)) hc)"
    and fr: "feedbackR pr' = fst (processSample J 1
               (fst (processSample J 1 (wetR * feedback p)
                      (snd (processSample J 0 (wetL * feedback p) lc))))
               (snd (processSample J 0 (fst (processSample J 0 (wetL * feedback p) lc)) hc)))"
    and pp: "params pr' = p"
    unfolding p_def lc_def hc_def
    by (auto simp: processBlock_sample_def Let_def split: option.splits prod.splits if_splits)
  from rl rr fl fr show ?thesis unfolding pp by blast
qed

lemma DelayLine_write_ready:
  assumes "DelayLine_ready dl"
  shows "\<exists>dl'. DelayLine_write x dl = Some dl' \<and> DelayLine_ready dl' \<and>
               bufferLength dl' = bufferLength dl"
  using assms
  by (auto simp: DelayLine_write_def DelayLine_ready_def DelayLine_wf_def Let_def)

lemma DelayLine_read_ready:
  assumes "DelayLine_ready dl" and "read_pre d dl"
  shows "\<exists>wet. DelayLine_read d dl = Some wet"
  using DelayLine_read_in_range [of d dl] assms by (simp add: DelayLine_ready_def)

lemma read_pre_cong:
  assumes "bufferLength dl' = bufferLength dl"
  shows "read_pre d dl' = read_pre d dl"
  using assms by (simp add: read_pre_def)

lemma processBlock_sample_reads:
  assumes rl: "DelayLine_ready (delayLineL pr)" and rr: "DelayLine_ready (delayLineR pr)"
    and d: "d = (if tempoSync (Parameters_smoothen J (params pr)) then syncedTime
                 else delayTime (Parameters_smoothen J (params pr))) / 1000 * sampleRate pr"
    and readL: "\<And>x dl. DelayLine_write x (delayLineL pr) = Some dl \<Longrightarrow> DelayLine_ready dl \<Longrightarrow>
                  \<exists>wet. DelayLine_read d dl = Some wet"
    and readR: "\<And>x dl. DelayLine_write x (delayLineR pr) = Some dl \<Longrightarrow> DelayLine_ready dl \<Longrightarrow>
                  \<exists>wet. DelayLine_read d dl = Some wet"
  shows "\<exists>pr' out. processBlock_sample J syncedTime dry pr = Some (pr', out, d)"
proof -
  define p where "p = Parameters_smoothen J (params pr)"
  define mono where "mono = (fst dry + snd dry) * 0.5"
  from DelayLine_write_ready [OF rl, of "mono * panL p + feedbackR pr"]
  obtain dlL where wl: "DelayLine_write (mono * panL p + feedbackR pr) (delayLineL pr) = Some dlL"
    and rdl: "DelayLine_ready dlL"
    by blast
  from DelayLine_write_ready [OF rr, of "mono * panR p + feedbackL pr"]
  obtain dlR where wr: "DelayLine_write (mono * panR p + feedbackL pr) (delayLineR pr) = Some dlR"
    and rdr: "DelayLine_ready dlR"
    by blast
  from readL [OF wl rdl] obtain wetL where rdL: "DelayLine_read d dlL = Some wetL" by blast
  from readR [OF wr rdr] obtain wetR where rdR: "DelayLine_read d dlR = Some wetR" by blast
  have d': "(if tempoSync p then syncedTime else delayTime p) / 1000 * sampleRate pr = d"
    unfolding p_def d ..
  show ?thesis
    unfolding processBlock_sample_def Let_def p_def [symmetric] mono_def [symmetric] d' wl wr
    by (simp add: rdL rdR split: prod.splits)
qed

lemma processBlock_sample_total:
  assumes rl: "DelayLine_ready (delayLineL pr)" and rr: "DelayLine_ready (delayLineR pr)"
    and d: "d = (if tempoSync (Parameters_smoothen J (params pr)) then syncedTime
                 else delayTime (Parameters_smoothen J (params pr))) / 1000 * sampleRate pr"
    and pl: "read_pre d (delayLineL pr)" and pr: "read_pre d (delayLineR pr)"
  shows "\<exists>pr' out. processBlock_sample J syncedTime dry pr = Some (pr', out, d)"
proof (rule processBlock_sample_reads [OF rl rr d])
  fix x dl
  assume w: "DelayLine_write x (delayLineL pr) = Some dl" and r: "DelayLine_ready dl"
  from DelayLine_write_ready [OF rl, of x] w
  have "bufferLength dl = bufferLength (delayLineL pr)" by simp
  with pl have "read_pre d dl" by (simp add: read_pre_def)
  with r show "\<exists>wet. DelayLine_read d dl = Some wet" by (rule DelayLine_read_ready)
next
  fix x dl
  assume w: "DelayLine_write x (delayLineR pr) = Some dl" and r: "DelayLine_ready dl"
  from DelayLine_write_ready [OF rr, of x] w
  have "bufferLength dl = bufferLength (delayLineR pr)" by simp
  with pr have "read_pre d dl" by (simp add: read_pre_def)
  with r show "\<exists>wet. DelayLine_read d dl = Some wet" by (rule DelayLine_read_ready)
qed

subsection \<open>The loop\<close>

lemma processBlock_loop_append:
  "processBlock_loop J syncedTime (xs @ ys) pr (maxL, maxR) =
     (case processBlock_loop J syncedTime xs pr (maxL, maxR) of
        None \<Rightarrow> None
      | Some (pr1, outs1, delays1, peaks1) \<Rightarrow>
          (case processBlock_loop J syncedTime ys pr1 peaks1 of
             None \<Rightarrow> None
           | Some (pr2, outs2, delays2, peaks2) \<Rightarrow>
               Some (pr2, outs1 @ outs2, delays1 @ delays2, peaks2)))"
proof (induction xs arbitrary: pr maxL maxR)
  case Nil
  show ?case by (simp split: option.splits)
next
  case (Cons x xs)
  show ?case
  proof (cases "processBlock_sample J syncedTime x pr")
    case None
    then show ?thesis by simp
  next
    case (Some r)
    obtain pr1 outL outR d where r: "r = (pr1, (outL, outR), d)" by (metis prod.exhaust)
    show ?thesis
      using Some unfolding r
      by (simp add: Cons.IH split: option.splits prod.splits)
  qed
qed

lemma processBlock_loop_iteration:
  assumes loop: "processBlock_loop J syncedTime xs pr (maxL, maxR) = Some (prN, outs, delays, peaksN)"
    and i: "i < length xs"
  shows "\<exists>s outs1 delays1 peaks1 s' out d.
           processBlock_loop J syncedTime (take i xs) pr (maxL, maxR) =
             Some (s, outs1, delays1, peaks1) \<and>
           processBlock_sample J syncedTime (xs ! i) s = Some (s', out, d) \<and>
           length delays1 = i \<and> delays ! i = d \<and> length delays = length xs"
proof -
  from i have xs: "xs = take i xs @ (xs ! i # drop (Suc i) xs)"
    by (simp add: id_take_nth_drop)
  have len: "length ds = length ys"
    if "processBlock_loop J syncedTime ys q (a, b) = Some (q', os, ds, m)" for ys q a b q' os ds m
    using that
    by (induction ys arbitrary: q a b q' os ds m) (auto split: option.splits prod.splits)
  from loop obtain s outs1 delays1 peaks1 r outs2 delays2 where
    a: "processBlock_loop J syncedTime (take i xs) pr (maxL, maxR) = Some (s, outs1, delays1, peaks1)"
    and b: "processBlock_loop J syncedTime (xs ! i # drop (Suc i) xs) s peaks1 =
              Some (r, outs2, delays2, peaksN)"
    and ds: "delays = delays1 @ delays2"
    by (subst (asm) xs) (auto simp: processBlock_loop_append split: option.splits prod.splits)
  obtain pL pR where peaks1: "peaks1 = (pL, pR)" by (cases peaks1)
  from b obtain s' out d delays3 where
    c: "processBlock_sample J syncedTime (xs ! i) s = Some (s', out, d)"
    and ds2: "delays2 = d # delays3"
    unfolding peaks1 by (auto split: option.splits prod.splits)
  from len [OF a] i have l1: "length delays1 = i" by simp
  from len [OF loop] have l: "length delays = length xs" .
  from l1 ds ds2 have "delays ! i = d" by (simp add: nth_append)
  with a c l1 l show ?thesis by blast
qed

text \<open>What a successful \<open>write\<close> leaves: the sample at the advanced write index.\<close>

lemma DelayLine_write_stores:
  assumes "DelayLine_write x dl = Some dl'"
  shows "buffer dl' ! nat (writeIndex dl') = x"
    and "buffer dl' = (buffer dl)[nat (writeIndex dl') := x]"
    and "writeIndex dl' = (if writeIndex dl + 1 \<ge> bufferLength dl then 0 else writeIndex dl + 1)"
    and "bufferLength dl' = bufferLength dl"
  using assms by (auto simp: DelayLine_write_def Let_def split: if_splits)

lemma Parameters_smoothen_feedback:
  "feedback (Parameters_smoothen J p) = fst (getNextValue J (feedbackSmoother p))"
  by (simp add: Parameters_smoothen_def Let_def split: prod.splits)

lemma processBlock_loop_next:
  assumes a: "processBlock_loop J syncedTime (take i xs) pr (maxL, maxR) = Some (s, outs1, delays1, peaks1)"
    and b: "processBlock_sample J syncedTime (xs ! i) s = Some (s', out, d)"
    and i: "i < length xs"
  shows "\<exists>outs2 delays2 peaks2.
           processBlock_loop J syncedTime (take (Suc i) xs) pr (maxL, maxR) =
             Some (s', outs2, delays2, peaks2)"
proof -
  obtain pL pR where p: "peaks1 = (pL, pR)" by (cases peaks1)
  obtain outL outR where o: "out = (outL, outR)" by (cases out)
  from i have t: "take (Suc i) xs = take i xs @ [xs ! i]" by (rule take_Suc_conv_app_nth)
  show ?thesis
    unfolding t processBlock_loop_append a p using b by (simp add: o)
qed

subsection \<open>Two passes on the example processor\<close>

text \<open>
  With the plain JUCE operations the filters pass the feedback through, so the feedback
  sample is the wet sample times the feedback amount. On the example processor the first
  pass reads the 7 that lies two samples back and leaves a feedback of 7/2.
\<close>

lemma processBlock_sample_example:
  "\<exists>pr' out. processBlock_sample JUCE_plain 2 (1, 3) DelayAudioProcessor_example = Some (pr', out, 2)"
proof (rule processBlock_sample_total)
  show "DelayLine_ready (delayLineL DelayAudioProcessor_example)"
    by (simp add: DelayAudioProcessor_example_def DelayLine_ready_def DelayLine_wf_def)
  show "DelayLine_ready (delayLineR DelayAudioProcessor_example)"
    by (simp add: DelayAudioProcessor_example_def DelayLine_ready_def DelayLine_wf_def)
  show "2 = (if tempoSync (Parameters_smoothen JUCE_plain (params DelayAudioProcessor_example))
             then 2 else delayTime (Parameters_smoothen JUCE_plain (params DelayAudioProcessor_example)))
            / 1000 * sampleRate DelayAudioProcessor_example"
    by (simp add: Parameters_smoothen_delayTime DelayAudioProcessor_example_def
        Parameters_example_def)
  show "read_pre 2 (delayLineL DelayAudioProcessor_example)"
    by (simp add: read_pre_def DelayAudioProcessor_example_def)
  show "read_pre 2 (delayLineR DelayAudioProcessor_example)"
    by (simp add: read_pre_def DelayAudioProcessor_example_def)
qed

lemma processBlock_sample_feedback_plain:
  assumes "processBlock_sample JUCE_plain syncedTime (dryL, dryR) pr = Some (pr', out, d)"
  shows "\<exists>wetL wetR. DelayLine_read d (delayLineL pr') = Some wetL \<and>
           DelayLine_read d (delayLineR pr') = Some wetR \<and>
           feedbackL pr' = wetL * feedback (params pr') \<and>
           feedbackR pr' = wetR * feedback (params pr')"
  using processBlock_sample_feedback [OF assms] by (auto simp: JUCE_plain_def)

lemma DelayAudioProcessor_example_step:
  assumes step: "processBlock_sample JUCE_plain 2 (1, 3) DelayAudioProcessor_example = Some (s1, out, d)"
  shows "d = 2" and "sampleRate s1 = 1000" and "tempoSync (params s1)"
    and "\<exists>v. delayLineL s1 = \<lparr>buffer = [v, 2, 3, 4, 5, 6, 7, 8], bufferLength = 8, writeIndex = 0\<rparr>"
    and "\<exists>v. delayLineR s1 = \<lparr>buffer = [v, 2, 3, 4, 5, 6, 7, 8], bufferLength = 8, writeIndex = 0\<rparr>"
    and "feedback (params s1) = 1 / 2"
proof -
  note f = processBlock_sample_SomeD [OF step]
  show sync: "tempoSync (params s1)"
    by (simp add: f(1) Parameters_smoothen_delayTime DelayAudioProcessor_example_def
        Parameters_example_def)
  show "sampleRate s1 = 1000" by (simp add: f(7) DelayAudioProcessor_example_def)
  show "d = 2" using sync by (simp add: f(2) DelayAudioProcessor_example_def)
  from f(3) show "\<exists>v. delayLineL s1 = \<lparr>buffer = [v, 2, 3, 4, 5, 6, 7, 8], bufferLength = 8, writeIndex = 0\<rparr>"
    by (simp add: DelayLine_write_def DelayAudioProcessor_example_def Let_def) metis
  from f(4) show "\<exists>v. delayLineR s1 = \<lparr>buffer = [v, 2, 3, 4, 5, 6, 7, 8], bufferLength = 8, writeIndex = 0\<rparr>"
    by (simp add: DelayLine_write_def DelayAudioProcessor_example_def Let_def) metis
  show "feedback (params s1) = 1 / 2"
    by (simp add: f(1) Parameters_smoothen_feedback DelayAudioProcessor_example_def
        Parameters_example_def JUCE_plain_def)
qed

lemma DelayLine_read_example:
  "DelayLine_read 2 \<lparr>buffer = [v, 2, 3, 4, 5, 6, 7, 8], bufferLength = 8, writeIndex = 0\<rparr> = Some 7"
proof -
  have "float_to_int 2 = 2" by (simp add: float_to_int_def)
  then show ?thesis
    by (simp add: DelayLine_read_def readIndices_def fetch_def Let_def)
qed

subsection \<open>The values written to the delay lines\<close>

text \<open>
  Claim C9. \<open>prepareToPlay\<close> sets both feedback samples to zero. In the iteration number
  \<open>i\<close> of the per-sample loop, entered in the state \<open>s\<close> that the iterations before it have
  left and leaving the state \<open>s'\<close> in which the next one is entered, the left delay line
  advances its write index and stores there the mono signal (the mean of the two dry
  samples) times \<open>panL\<close> plus the right feedback sample of \<open>s\<close>; the right delay line
  advances its write index and stores there the mono signal times \<open>panR\<close> plus the left
  feedback sample of \<open>s\<close>; no other element of either array changes. The feedback
  samples that \<open>s'\<close> carries to the next iteration are the wet samples times the feedback
  amount, passed through the two filters.
\<close>

theorem cross_feedback_writes:
  assumes prep: "prepareToPlay J garbageL garbageR store rate samplesPerBlock pr0 = Some pr1"
    and loop: "processBlock_loop J syncedTime xs pr (maxL, maxR) = Some (prN, outs, delays, peaksN)"
    and i: "i < length xs"
  shows "feedbackL pr1 = 0 \<and> feedbackR pr1 = 0 \<and>
         (\<exists>s outs1 delays1 peaks1 s' out d.
            processBlock_loop J syncedTime (take i xs) pr (maxL, maxR) =
              Some (s, outs1, delays1, peaks1) \<and>
            processBlock_sample J syncedTime (xs ! i) s = Some (s', out, d) \<and>
            (\<exists>outs2 delays2 peaks2.
               processBlock_loop J syncedTime (take (Suc i) xs) pr (maxL, maxR) =
                 Some (s', outs2, delays2, peaks2)) \<and>
            DelayLine_write ((fst (xs ! i) + snd (xs ! i)) * 0.5 * panL (params s') + feedbackR s)
              (delayLineL s) = Some (delayLineL s') \<and>
            DelayLine_write ((fst (xs ! i) + snd (xs ! i)) * 0.5 * panR (params s') + feedbackL s)
              (delayLineR s) = Some (delayLineR s') \<and>
            writeIndex (delayLineL s') =
              (if writeIndex (delayLineL s) + 1 \<ge> bufferLength (delayLineL s) then 0
               else writeIndex (delayLineL s) + 1) \<and>
            writeIndex (delayLineR s') =
              (if writeIndex (delayLineR s) + 1 \<ge> bufferLength (delayLineR s) then 0
               else writeIndex (delayLineR s) + 1) \<and>
            buffer (delayLineL s') ! nat (writeIndex (delayLineL s')) =
              (fst (xs ! i) + snd (xs ! i)) * 0.5 * panL (params s') + feedbackR s \<and>
            buffer (delayLineR s') ! nat (writeIndex (delayLineR s')) =
              (fst (xs ! i) + snd (xs ! i)) * 0.5 * panR (params s') + feedbackL s \<and>
            buffer (delayLineL s') =
              (buffer (delayLineL s))[nat (writeIndex (delayLineL s')) :=
                 (fst (xs ! i) + snd (xs ! i)) * 0.5 * panL (params s') + feedbackR s] \<and>
            buffer (delayLineR s') =
              (buffer (delayLineR s))[nat (writeIndex (delayLineR s')) :=
                 (fst (xs ! i) + snd (xs ! i)) * 0.5 * panR (params s') + feedbackL s] \<and>
            (\<exists>wetL wetR lowCutL highCutL lowCutR highCutR.
               DelayLine_read d (delayLineL s') = Some wetL \<and>
               DelayLine_read d (delayLineR s') = Some wetR \<and>
               feedbackL s' = fst (processSample J 0
                 (fst (processSample J 0 (wetL * feedback (params s')) lowCutL)) highCutL) \<and>
               feedbackR s' = fst (processSample J 1
                 (fst (processSample J 1 (wetR * feedback (params s')) lowCutR)) highCutR)))"
proof -
  from prep have zero: "feedbackL pr1 = 0 \<and> feedbackR pr1 = 0"
    by (auto simp: prepareToPlay_def Let_def split: option.splits)
  from processBlock_loop_iteration [OF loop i]
  obtain s outs1 delays1 peaks1 s' out d where
    a: "processBlock_loop J syncedTime (take i xs) pr (maxL, maxR) = Some (s, outs1, delays1, peaks1)"
    and b: "processBlock_sample J syncedTime (xs ! i) s = Some (s', out, d)"
    by blast
  from b have b': "processBlock_sample J syncedTime (fst (xs ! i), snd (xs ! i)) s = Some (s', out, d)"
    by simp
  note n = processBlock_loop_next [OF a b i]
  note w = processBlock_sample_SomeD(3,4) [OF b']
  note f = processBlock_sample_feedback [OF b']
  note stL = DelayLine_write_stores [OF w(1)]
  note stR = DelayLine_write_stores [OF w(2)]
  from zero a b n w stL(3) stR(3) stL(1) stR(1) stL(2) stR(2) f show ?thesis by blast
qed

theorem cross_feedback_writes_witness:
  "(\<exists>pr1. prepareToPlay JUCE_plain (\<lambda>i. 0) (\<lambda>i. 0) ParameterStore_example 48000 512
            DelayAudioProcessor_example = Some pr1 \<and> feedbackL pr1 = 0 \<and> feedbackR pr1 = 0) \<and>
   (\<exists>s1 outs1 delays1 peaks1 s2 outs delays peaks.
      processBlock_loop JUCE_plain 2 [(1, 3)] DelayAudioProcessor_example (0, 0) =
        Some (s1, outs1, delays1, peaks1) \<and>
      feedbackR s1 = 7 / 2 \<and>
      processBlock_loop JUCE_plain 2 [(1, 3), (2, 4)] DelayAudioProcessor_example (0, 0) =
        Some (s2, outs, delays, peaks) \<and>
      writeIndex (delayLineL s2) = 1 \<and>
      buffer (delayLineL s2) ! 1 = (2 + 4) * 0.5 * panL (params s2) + 7 / 2)"
proof -
  let ?ex = "DelayAudioProcessor_example" and ?J = JUCE_plain
  let ?xs = "[(1, 3), (2, 4)] :: (real \<times> real) list"
  obtain pr1 where prep: "prepareToPlay ?J (\<lambda>i. 0) (\<lambda>i. 0) ParameterStore_example 48000 512
            ?ex = Some pr1"
    by (simp add: prepareToPlay_def Parameters_prepareToPlay_def Let_def)
  from processBlock_sample_example obtain s1 out1 where
    st1: "processBlock_sample ?J 2 (1, 3) ?ex = Some (s1, out1, 2)"
    by blast
  note e = DelayAudioProcessor_example_step [OF st1]
  from e(4) obtain vL where dlL:
    "delayLineL s1 = \<lparr>buffer = [vL, 2, 3, 4, 5, 6, 7, 8], bufferLength = 8, writeIndex = 0\<rparr>"
    by blast
  from e(5) obtain vR where dlR:
    "delayLineR s1 = \<lparr>buffer = [vR, 2, 3, 4, 5, 6, 7, 8], bufferLength = 8, writeIndex = 0\<rparr>"
    by blast
  from processBlock_sample_feedback_plain [OF st1] obtain wetR where
    "DelayLine_read 2 (delayLineR s1) = Some wetR" and "feedbackR s1 = wetR * feedback (params s1)"
    by blast
  then have fb1: "feedbackR s1 = 7 / 2"
    by (simp add: dlR DelayLine_read_example e(6))
  have "\<exists>pr' out. processBlock_sample ?J 2 (2, 4) s1 = Some (pr', out, 2)"
  proof (rule processBlock_sample_total)
    show "DelayLine_ready (delayLineL s1)"
      by (simp add: dlL DelayLine_ready_def DelayLine_wf_def)
    show "DelayLine_ready (delayLineR s1)"
      by (simp add: dlR DelayLine_ready_def DelayLine_wf_def)
    show "2 = (if tempoSync (Parameters_smoothen ?J (params s1)) then 2
               else delayTime (Parameters_smoothen ?J (params s1))) / 1000 * sampleRate s1"
      using e(3) by (simp add: Parameters_smoothen_delayTime e(2))
    show "read_pre 2 (delayLineL s1)" by (simp add: read_pre_def dlL)
    show "read_pre 2 (delayLineR s1)" by (simp add: read_pre_def dlR)
  qed
  then obtain s2 out2 where st2: "processBlock_sample ?J 2 (2, 4) s1 = Some (s2, out2, 2)"
    by blast
  obtain o1L o1R where o1: "out1 = (o1L, o1R)" by (cases out1)
  obtain o2L o2R where o2: "out2 = (o2L, o2R)" by (cases out2)
  have loop1: "processBlock_loop ?J 2 [(1, 3)] ?ex (0, 0) =
      Some (s1, [(o1L, o1R)], [2], (max 0 \<bar>o1L\<bar>, max 0 \<bar>o1R\<bar>))"
    using st1 by (simp add: o1)
  have loop2: "processBlock_loop ?J 2 ?xs ?ex (0, 0) =
      Some (s2, [(o1L, o1R), (o2L, o2R)], [2, 2],
            (max (max 0 \<bar>o1L\<bar>) \<bar>o2L\<bar>, max (max 0 \<bar>o1R\<bar>) \<bar>o2R\<bar>))"
    using st1 st2 by (simp add: o1 o2)
  have i: "Suc 0 < length ?xs" by simp
  from cross_feedback_writes [OF prep loop2 i]
  have z: "feedbackL pr1 = 0 \<and> feedbackR pr1 = 0"
    and "\<exists>s outs1 delays1 peaks1 s' out d.
            processBlock_loop ?J 2 (take (Suc 0) ?xs) ?ex (0, 0) = Some (s, outs1, delays1, peaks1) \<and>
            processBlock_sample ?J 2 (?xs ! Suc 0) s = Some (s', out, d) \<and>
            writeIndex (delayLineL s') =
              (if writeIndex (delayLineL s) + 1 \<ge> bufferLength (delayLineL s) then 0
               else writeIndex (delayLineL s) + 1) \<and>
            buffer (delayLineL s') ! nat (writeIndex (delayLineL s')) =
              (fst (?xs ! Suc 0) + snd (?xs ! Suc 0)) * 0.5 * panL (params s') + feedbackR s"
    by blast+
  then obtain s s' outs1 delays1 peaks1 out d where
    a: "processBlock_loop ?J 2 (take (Suc 0) ?xs) ?ex (0, 0) = Some (s, outs1, delays1, peaks1)"
    and b: "processBlock_sample ?J 2 (?xs ! Suc 0) s = Some (s', out, d)"
    and wi: "writeIndex (delayLineL s') =
              (if writeIndex (delayLineL s) + 1 \<ge> bufferLength (delayLineL s) then 0
               else writeIndex (delayLineL s) + 1)"
    and pin: "buffer (delayLineL s') ! nat (writeIndex (delayLineL s')) =
              (fst (?xs ! Suc 0) + snd (?xs ! Suc 0)) * 0.5 * panL (params s') + feedbackR s"
    by blast
  from a loop1 have s: "s = s1" by simp
  from b st2 have s': "s' = s2" by (simp add: s)
  from wi have wi2: "writeIndex (delayLineL s2) = 1" by (simp add: s s' dlL)
  from pin have "buffer (delayLineL s2) ! 1 = (2 + 4) * 0.5 * panL (params s2) + 7 / 2"
    by (simp add: s s' wi2 fb1)
  with prep z loop1 fb1 loop2 wi2 show ?thesis by blast
qed

section \<open>The delays that the processing loop passes to the delay lines\<close>

subsection \<open>After \<open>prepareToPlay\<close>\<close>

lemma setMaximumDelayInSamples_bufferLength:
  "bufferLength (setMaximumDelayInSamples garbage n dl) = max (bufferLength dl) (n + 2)"
  by (simp add: setMaximumDelayInSamples_def Let_def)

lemma DelayLine_reset_ready:
  assumes "DelayLine_wf dl" and "0 < bufferLength dl"
  shows "DelayLine_ready (DelayLine_reset dl)"
    and "writeIndex (DelayLine_reset dl) = bufferLength dl - 1"
  using assms by (simp_all add: DelayLine_ready_def DelayLine_wf_def DelayLine_reset_def)

lemma configured_ready:
  assumes wf: "DelayLine_wf dl" and n: "0 < n"
  shows "DelayLine_ready (DelayLine_reset (setMaximumDelayInSamples garbage n dl))"
    and "n + 2 \<le> bufferLength (DelayLine_reset (setMaximumDelayInSamples garbage n dl))"
    and "writeIndex (DelayLine_reset (setMaximumDelayInSamples garbage n dl)) =
         bufferLength (DelayLine_reset (setMaximumDelayInSamples garbage n dl)) - 1"
proof -
  let ?dl = "setMaximumDelayInSamples garbage n dl"
  have wf1: "DelayLine_wf ?dl" using wf by (rule setMaximumDelayInSamples_wf)
  have len: "n + 2 \<le> bufferLength ?dl" by (simp add: setMaximumDelayInSamples_bufferLength)
  with n have pos: "0 < bufferLength ?dl" by simp
  show "DelayLine_ready (DelayLine_reset ?dl)" using wf1 pos by (rule DelayLine_reset_ready)
  show "n + 2 \<le> bufferLength (DelayLine_reset ?dl)"
    using len by (simp add: DelayLine_reset_wf(2) [OF wf1])
  show "writeIndex (DelayLine_reset ?dl) = bufferLength (DelayLine_reset ?dl) - 1"
    by (simp add: DelayLine_reset_ready(2) [OF wf1 pos] DelayLine_reset_wf(2) [OF wf1])
qed

lemma prepareToPlay_prepared:
  assumes rate: "0 < rate"
    and wf: "DelayLine_wf (delayLineL pr0)" "DelayLine_wf (delayLineR pr0)"
  shows "\<exists>pr1. prepareToPlay J garbageL garbageR store rate samplesPerBlock pr0 = Some pr1 \<and>
               prepared rate pr1 \<and> delayTime (params pr1) = 0 \<and> tempo pr1 = \<lparr>bpm = 120\<rparr> \<and>
               levelL pr1 = \<lparr>atomic_value = 0\<rparr> \<and> levelR pr1 = \<lparr>atomic_value = 0\<rparr> \<and>
               writeIndex (delayLineL pr1) = bufferLength (delayLineL pr1) - 1 \<and>
               writeIndex (delayLineR pr1) = bufferLength (delayLineR pr1) - 1"
proof -
  let ?n = "\<lceil>maxDelayTime / 1000 * rate\<rceil>"
  from rate have n: "0 < ?n" by (simp add: maxDelayTime_def)
  note L = configured_ready [OF wf(1) n, of garbageL]
  note R = configured_ready [OF wf(2) n, of garbageR]
  note c = one_pole_coeff_range [OF rate]
  from rate have nz: "0.2 * rate \<noteq> 0" by simp
  show ?thesis
    using L R c rate nz
    by (simp add: prepareToPlay_def Parameters_prepareToPlay_def Parameters_reset_def Let_def
        prepared_def Tempo_reset_def Measurement_reset_def)
qed

subsection \<open>Inside a block\<close>

lemma Parameters_update_fields:
  "delayTime (Parameters_update J store p) =
     (if delayTime p = 0 then delayTimeParam store else delayTime p)"
  "targetDelayTime (Parameters_update J store p) = delayTimeParam store"
  "coeff (Parameters_update J store p) = coeff p"
  "tempoSync (Parameters_update J store p) = tempoSyncParam store"
  "delayNote (Parameters_update J store p) = delayNoteParam store"
  by (simp_all add: Parameters_update_def)

lemma one_pole_step_range:
  fixes x t c lo hi :: real
  assumes c: "0 < c" "c < 1" and x: "lo \<le> x" "x \<le> hi" and t: "lo \<le> t" "t \<le> hi"
  shows "lo \<le> x + (t - x) * c" and "x + (t - x) * c \<le> hi"
proof -
  have eq: "x + (t - x) * c = x * (1 - c) + t * c" by (simp add: algebra_simps)
  have "lo * (1 - c) + lo * c \<le> x * (1 - c) + t * c"
    using c x t by (intro add_mono mult_right_mono) simp_all
  then show "lo \<le> x + (t - x) * c" unfolding eq by (simp add: algebra_simps)
  have "x * (1 - c) + t * c \<le> hi * (1 - c) + hi * c"
    using c x t by (intro add_mono mult_right_mono) simp_all
  then show "x + (t - x) * c \<le> hi" unfolding eq by (simp add: algebra_simps)
qed

lemma delay_in_window:
  fixes t rate :: real
  assumes rate: "0 < rate" and hi: "t \<le> maxDelayTime"
    and cap: "\<lceil>maxDelayTime / 1000 * rate\<rceil> + 2 \<le> bufferLength dl"
    and lo: "1000 \<le> t * rate"
  shows "read_pre (t / 1000 * rate) dl"
proof -
  from hi rate have "t / 1000 * rate \<le> maxDelayTime / 1000 * rate"
    by (intro mult_right_mono divide_right_mono) simp_all
  also have "\<dots> \<le> real_of_int \<lceil>maxDelayTime / 1000 * rate\<rceil>" by (rule le_of_int_ceiling)
  also have "\<dots> \<le> real_of_int (bufferLength dl - 2)" using cap by simp
  finally have up: "t / 1000 * rate \<le> real_of_int (bufferLength dl) - 2" by simp
  from lo have "1 \<le> t / 1000 * rate" by simp
  with up show ?thesis by (simp add: read_pre_def)
qed

lemma processBlock_sample_running:
  assumes run: "running rate pr" and hi: "syncedTime \<le> maxDelayTime"
    and lo: "1000 \<le> (if tempoSync (params pr) then syncedTime else minDelayTime) * rate"
  shows "\<exists>pr' out d. processBlock_sample J syncedTime dry pr = Some (pr', out, d) \<and>
           running rate pr' \<and> read_pre d (delayLineL pr') \<and> read_pre d (delayLineR pr') \<and>
           tempoSync (params pr') = tempoSync (params pr) \<and>
           bufferLength (delayLineL pr') = bufferLength (delayLineL pr) \<and>
           bufferLength (delayLineR pr') = bufferLength (delayLineR pr) \<and>
           tempo pr' = tempo pr \<and> levelL pr' = levelL pr \<and> levelR pr' = levelR pr"
proof -
  define p where "p = Parameters_smoothen J (params pr)"
  define t where "t = (if tempoSync p then syncedTime else delayTime p)"
  define d where "d = t / 1000 * sampleRate pr"
  from run have sr: "sampleRate pr = rate" and rate: "0 < rate"
    and rl: "DelayLine_ready (delayLineL pr)" and rr: "DelayLine_ready (delayLineR pr)"
    and capl: "\<lceil>maxDelayTime / 1000 * rate\<rceil> + 2 \<le> bufferLength (delayLineL pr)"
    and capr: "\<lceil>maxDelayTime / 1000 * rate\<rceil> + 2 \<le> bufferLength (delayLineR pr)"
    and c: "0 < coeff (params pr)" "coeff (params pr) < 1"
    and x: "minDelayTime \<le> delayTime (params pr)" "delayTime (params pr) \<le> maxDelayTime"
    and tg: "minDelayTime \<le> targetDelayTime (params pr)" "targetDelayTime (params pr) \<le> maxDelayTime"
    by (simp_all add: running_def)
  have pt: "targetDelayTime p = targetDelayTime (params pr)" "coeff p = coeff (params pr)"
    "tempoSync p = tempoSync (params pr)"
    by (simp_all add: p_def Parameters_smoothen_delayTime)
  have pd: "minDelayTime \<le> delayTime p" "delayTime p \<le> maxDelayTime"
    unfolding p_def Parameters_smoothen_delayTime(1)
    using c x tg by (rule one_pole_step_range)+
  have thi: "t \<le> maxDelayTime" using hi pd by (simp add: t_def)
  have tlo: "1000 \<le> t * rate"
  proof (cases "tempoSync p")
    case True
    with lo show ?thesis by (simp add: t_def pt)
  next
    case False
    with lo have "1000 \<le> minDelayTime * rate" by (simp add: pt)
    also have "\<dots> \<le> delayTime p * rate" using pd rate by (intro mult_right_mono) simp_all
    finally show ?thesis using False by (simp add: t_def)
  qed
  have prel: "read_pre d (delayLineL pr)"
    unfolding d_def sr using rate thi capl tlo by (rule delay_in_window)
  have prer: "read_pre d (delayLineR pr)"
    unfolding d_def sr using rate thi capr tlo by (rule delay_in_window)
  have dd: "d = (if tempoSync (Parameters_smoothen J (params pr)) then syncedTime
                 else delayTime (Parameters_smoothen J (params pr))) / 1000 * sampleRate pr"
    by (simp add: d_def t_def p_def)
  from processBlock_sample_total [OF rl rr dd prel prer, of dry]
  obtain pr' out where step: "processBlock_sample J syncedTime (fst dry, snd dry) pr = Some (pr', out, d)"
    by auto
  note f = processBlock_sample_SomeD [OF step]
  from DelayLine_write_ready [OF rl] f(3)
  have rl': "DelayLine_ready (delayLineL pr')" "bufferLength (delayLineL pr') = bufferLength (delayLineL pr)"
    by (metis option.inject)+
  from DelayLine_write_ready [OF rr] f(4)
  have rr': "DelayLine_ready (delayLineR pr')" "bufferLength (delayLineR pr') = bufferLength (delayLineR pr)"
    by (metis option.inject)+
  have pp: "params pr' = p" using f(1) by (simp add: p_def)
  have run': "running rate pr'"
    unfolding running_def pp
    using sr rate rl' rr' capl capr c pd tg f(7) by (simp add: pt)
  have "read_pre d (delayLineL pr')" "read_pre d (delayLineR pr')"
    using prel prer by (simp_all add: read_pre_cong [OF rl'(2)] read_pre_cong [OF rr'(2)])
  with step run' rl'(2) rr'(2) f(8,9,10) pp pt(3) show ?thesis by auto
qed


lemma processBlock_loop_running:
  assumes run: "running rate pr" and hi: "syncedTime \<le> maxDelayTime"
    and lo: "1000 \<le> (if tempoSync (params pr) then syncedTime else minDelayTime) * rate"
  shows "\<exists>prN outs delays peaks.
           processBlock_loop J syncedTime xs pr (maxL, maxR) = Some (prN, outs, delays, peaks) \<and>
           running rate prN \<and> length delays = length xs \<and>
           (\<forall>d \<in> set delays. read_pre d (delayLineL prN) \<and> read_pre d (delayLineR prN)) \<and>
           bufferLength (delayLineL prN) = bufferLength (delayLineL pr) \<and>
           bufferLength (delayLineR prN) = bufferLength (delayLineR pr) \<and>
           tempo prN = tempo pr \<and> levelL prN = levelL pr \<and> levelR prN = levelR pr"
  using run lo
proof (induction xs arbitrary: pr maxL maxR)
  case Nil
  then show ?case by simp
next
  case (Cons x xs)
  from processBlock_sample_running [OF Cons.prems(1) hi Cons.prems(2), of J x]
  obtain pr1 outL outR d where
    step: "processBlock_sample J syncedTime x pr = Some (pr1, (outL, outR), d)"
    and run1: "running rate pr1"
    and pre: "read_pre d (delayLineL pr1)" "read_pre d (delayLineR pr1)"
    and ts: "tempoSync (params pr1) = tempoSync (params pr)"
    and bl: "bufferLength (delayLineL pr1) = bufferLength (delayLineL pr)"
      "bufferLength (delayLineR pr1) = bufferLength (delayLineR pr)"
    and same: "tempo pr1 = tempo pr" "levelL pr1 = levelL pr" "levelR pr1 = levelR pr"
    by (metis prod.exhaust)
  from Cons.prems(2) have lo1:
    "1000 \<le> (if tempoSync (params pr1) then syncedTime else minDelayTime) * rate"
    by (simp add: ts)
  from Cons.IH [OF run1 lo1, of "max maxL \<bar>outL\<bar>" "max maxR \<bar>outR\<bar>"]
  obtain prN outs delays peaks where
    rest: "processBlock_loop J syncedTime xs pr1 (max maxL \<bar>outL\<bar>, max maxR \<bar>outR\<bar>) =
             Some (prN, outs, delays, peaks)"
    and runN: "running rate prN" and len: "length delays = length xs"
    and pres: "\<forall>d \<in> set delays. read_pre d (delayLineL prN) \<and> read_pre d (delayLineR prN)"
    and blN: "bufferLength (delayLineL prN) = bufferLength (delayLineL pr1)"
      "bufferLength (delayLineR prN) = bufferLength (delayLineR pr1)"
    and sameN: "tempo prN = tempo pr1" "levelL prN = levelL pr1" "levelR prN = levelR pr1"
    by blast
  have all: "processBlock_loop J syncedTime (x # xs) pr (maxL, maxR) =
               Some (prN, (outL, outR) # outs, d # delays, peaks)"
    using step rest by simp
  have "read_pre d (delayLineL prN)" "read_pre d (delayLineR prN)"
    using pre by (simp_all add: read_pre_cong [OF blN(1)] read_pre_cong [OF blN(2)])
  with pres have pres': "\<forall>e \<in> set (d # delays). read_pre e (delayLineL prN) \<and> read_pre e (delayLineR prN)"
    by simp
  from all runN len pres' blN bl sameN same show ?case by simp
qed

lemma updateIfGreater_succeeds:
  assumes "False \<in> set schedule"
  shows "\<exists>m'. updateIfGreater schedule v m = Some m'"
  unfolding updateIfGreater_def using updateIfGreater_loop_max [OF assms refl] by simp

text \<open>
  Where the precondition of \<open>read\<close> does hold. In a prepared processor, with the
  parameters inside their declared ranges and a tempo that is not zero, a block is
  processed to its end and every delay passed to \<open>read\<close> lies between 1 and
  \<open>bufferLength - 2\<close>, provided the delay time in force is at least one sample long:
  with tempo sync, the note length (capped at the maximum delay time) times the sample
  rate is at least 1000; without it, the minimum delay time times the sample rate is.
\<close>

lemma processBlock_reads_in_window:
  assumes prep: "prepared rate pr" and ranges: "createParameterLayout_ranges store"
    and input: "mainInput \<noteq> []"
    and sched: "False \<in> set scheduleL" "False \<in> set scheduleR"
    and nz: "bpm (Tempo_update playhead (tempo pr)) \<noteq> 0"
    and lo: "1000 \<le>
       (if tempoSyncParam store
        then min (60000 * (noteLengthMultipliers ! nat (delayNoteParam store))
                    / bpm (Tempo_update playhead (tempo pr))) maxDelayTime
        else minDelayTime) * rate"
  shows "\<exists>pr' outs delays.
           processBlock J store playhead scheduleL scheduleR mainInput isMainOutputStereo pr =
             Some (pr', outs, delays) \<and>
           prepared rate pr' \<and>
           (\<forall>d \<in> set delays. read_pre d (delayLineL pr') \<and> read_pre d (delayLineR pr'))"
proof -
  from input obtain channel0 others where mi: "mainInput = channel0 # others"
    by (cases mainInput) simp_all
  define params1 where "params1 = Parameters_update J store (params pr)"
  define tempo1 where "tempo1 = Tempo_update playhead (tempo pr)"
  define ms where "ms = 60000 * (noteLengthMultipliers ! nat (delayNoteParam store)) / bpm tempo1"
  define syncedTime where "syncedTime = (if ms > maxDelayTime then maxDelayTime else ms)"
  define inputDataR where "inputDataR = (case others of [] \<Rightarrow> channel0 | channel1 # _ \<Rightarrow> channel1)"
  define pr0 where "pr0 = pr\<lparr>params := params1, tempo := tempo1\<rparr>"
  from ranges have note_ok: "0 \<le> delayNoteParam store" "delayNoteParam store < 16"
    and dt: "minDelayTime \<le> delayTimeParam store" "delayTimeParam store \<le> maxDelayTime"
    by (simp_all add: createParameterLayout_ranges_def)
  have getms: "getMillisecondsForNoteLength (delayNote params1) tempo1 = Some ms"
    using note_ok nz
    by (simp add: getMillisecondsForNoteLength_def params1_def Parameters_update_fields
        noteLengthMultipliers_length ms_def tempo1_def)
  have st: "syncedTime = min ms maxDelayTime" by (simp add: syncedTime_def min_def)
  have hi: "syncedTime \<le> maxDelayTime" by (simp add: st)
  have run: "running rate pr0"
    using prep dt
    by (auto simp: running_def prepared_def pr0_def params1_def Parameters_update_fields)
  have lo0: "1000 \<le> (if tempoSync (params pr0) then syncedTime else minDelayTime) * rate"
    using lo by (auto simp: pr0_def params1_def Parameters_update_fields st ms_def tempo1_def
        split: if_splits)
  from processBlock_loop_running [OF run hi lo0, of J "zip channel0 inputDataR" 0 0]
  obtain prN outs delays maxL maxR where
    loop: "processBlock_loop J syncedTime (zip channel0 inputDataR) pr0 (0, 0) =
             Some (prN, outs, delays, (maxL, maxR))"
    and runN: "running rate prN" and len: "length delays = length (zip channel0 inputDataR)"
    and pres: "\<forall>d \<in> set delays. read_pre d (delayLineL prN) \<and> read_pre d (delayLineR prN)"
    by (metis prod.exhaust)
  from updateIfGreater_succeeds [OF sched(1)]
  obtain levelL1 where uL: "updateIfGreater scheduleL maxL (levelL prN) = Some levelL1" by blast
  from updateIfGreater_succeeds [OF sched(2)]
  obtain levelR1 where uR: "updateIfGreater scheduleR maxR (levelR prN) = Some levelR1" by blast
  define pr' where "pr' = prN\<lparr>levelL := levelL1, levelR := levelR1\<rparr>"
  have res: "processBlock J store playhead scheduleL scheduleR mainInput isMainOutputStereo pr =
      Some (pr', (if isMainOutputStereo then [map fst outs, map snd outs] else [map snd outs]),
            delays)"
    unfolding processBlock_def mi list.case Let_def
      params1_def [symmetric] tempo1_def [symmetric] getms option.case
      syncedTime_def [symmetric] inputDataR_def [symmetric] pr0_def [symmetric] loop
    by (simp add: uL uR pr'_def)
  have prep': "prepared rate pr'"
    using runN by (simp add: running_def prepared_def pr'_def)
  have pres': "\<forall>d \<in> set delays. read_pre d (delayLineL pr') \<and> read_pre d (delayLineR pr')"
    using pres by (simp add: pr'_def)
  show ?thesis using res prep' pres' by blast
qed

subsection \<open>The upper half of the precondition\<close>

text \<open>
  The cap on the tempo-synced time and the range of the delay time parameter keep every
  delay at or below \<open>bufferLength - 2\<close>, whatever the tempo: in a prepared processor with
  the parameters inside their declared ranges, every delay of a block that is processed
  to its end satisfies the second assertion of \<open>read\<close>.
\<close>

lemma delay_below_capacity:
  fixes t rate :: real
  assumes rate: "0 < rate" and hi: "t \<le> maxDelayTime"
    and cap: "\<lceil>maxDelayTime / 1000 * rate\<rceil> + 2 \<le> bufferLength dl"
  shows "t / 1000 * rate \<le> real_of_int (bufferLength dl) - 2"
proof -
  from hi rate have "t / 1000 * rate \<le> maxDelayTime / 1000 * rate"
    by (intro mult_right_mono divide_right_mono) simp_all
  also have "\<dots> \<le> real_of_int \<lceil>maxDelayTime / 1000 * rate\<rceil>" by (rule le_of_int_ceiling)
  also have "\<dots> \<le> real_of_int (bufferLength dl - 2)" using cap by simp
  finally show ?thesis by simp
qed

lemma processBlock_sample_below_capacity:
  assumes run: "running rate pr" and hi: "syncedTime \<le> maxDelayTime"
    and step: "processBlock_sample J syncedTime dry pr = Some (pr', out, d)"
  shows "running rate pr'"
    and "d \<le> real_of_int (bufferLength (delayLineL pr')) - 2"
    and "d \<le> real_of_int (bufferLength (delayLineR pr')) - 2"
    and "bufferLength (delayLineL pr') = bufferLength (delayLineL pr)"
    and "bufferLength (delayLineR pr') = bufferLength (delayLineR pr)"
proof -
  define p where "p = Parameters_smoothen J (params pr)"
  from run have sr: "sampleRate pr = rate" and rate: "0 < rate"
    and rl: "DelayLine_ready (delayLineL pr)" and rr: "DelayLine_ready (delayLineR pr)"
    and capl: "\<lceil>maxDelayTime / 1000 * rate\<rceil> + 2 \<le> bufferLength (delayLineL pr)"
    and capr: "\<lceil>maxDelayTime / 1000 * rate\<rceil> + 2 \<le> bufferLength (delayLineR pr)"
    and c: "0 < coeff (params pr)" "coeff (params pr) < 1"
    and x: "minDelayTime \<le> delayTime (params pr)" "delayTime (params pr) \<le> maxDelayTime"
    and tg: "minDelayTime \<le> targetDelayTime (params pr)" "targetDelayTime (params pr) \<le> maxDelayTime"
    by (simp_all add: running_def)
  have pt: "targetDelayTime p = targetDelayTime (params pr)" "coeff p = coeff (params pr)"
    by (simp_all add: p_def Parameters_smoothen_delayTime)
  have pd: "minDelayTime \<le> delayTime p" "delayTime p \<le> maxDelayTime"
    unfolding p_def Parameters_smoothen_delayTime(1)
    using c x tg by (rule one_pole_step_range)+
  from step have step': "processBlock_sample J syncedTime (fst dry, snd dry) pr = Some (pr', out, d)"
    by simp
  note f = processBlock_sample_SomeD [OF step']
  have pp: "params pr' = p" using f(1) by (simp add: p_def)
  from DelayLine_write_ready [OF rl] f(3)
  have rl': "DelayLine_ready (delayLineL pr')" "bufferLength (delayLineL pr') = bufferLength (delayLineL pr)"
    by (metis option.inject)+
  from DelayLine_write_ready [OF rr] f(4)
  have rr': "DelayLine_ready (delayLineR pr')" "bufferLength (delayLineR pr') = bufferLength (delayLineR pr)"
    by (metis option.inject)+
  show "running rate pr'"
    unfolding running_def pp
    using sr rate rl' rr' capl capr c pd tg f(7) by (simp add: pt)
  have thi: "(if tempoSync p then syncedTime else delayTime p) \<le> maxDelayTime"
    using hi pd by simp
  have d: "d = (if tempoSync p then syncedTime else delayTime p) / 1000 * rate"
    using f(2) by (simp add: pp sr)
  show "d \<le> real_of_int (bufferLength (delayLineL pr')) - 2"
    unfolding d rl'(2) using rate thi capl by (rule delay_below_capacity)
  show "d \<le> real_of_int (bufferLength (delayLineR pr')) - 2"
    unfolding d rr'(2) using rate thi capr by (rule delay_below_capacity)
  show "bufferLength (delayLineL pr') = bufferLength (delayLineL pr)" by (rule rl'(2))
  show "bufferLength (delayLineR pr') = bufferLength (delayLineR pr)" by (rule rr'(2))
qed

lemma processBlock_loop_below_capacity:
  assumes run: "running rate pr" and hi: "syncedTime \<le> maxDelayTime"
    and loop: "processBlock_loop J syncedTime xs pr (maxL, maxR) = Some (prN, outs, delays, peaks)"
  shows "running rate prN \<and>
         (\<forall>d \<in> set delays. d \<le> real_of_int (bufferLength (delayLineL prN)) - 2 \<and>
                            d \<le> real_of_int (bufferLength (delayLineR prN)) - 2) \<and>
         bufferLength (delayLineL prN) = bufferLength (delayLineL pr) \<and>
         bufferLength (delayLineR prN) = bufferLength (delayLineR pr)"
  using run loop
proof (induction xs arbitrary: pr maxL maxR outs delays)
  case Nil
  then show ?case by simp
next
  case (Cons x xs)
  from Cons.prems(2) obtain pr1 outL outR d outs1 delays1 where
    step: "processBlock_sample J syncedTime x pr = Some (pr1, (outL, outR), d)"
    and rest: "processBlock_loop J syncedTime xs pr1 (max maxL \<bar>outL\<bar>, max maxR \<bar>outR\<bar>) =
                 Some (prN, outs1, delays1, peaks)"
    and ds: "delays = d # delays1"
    by (auto split: option.splits prod.splits)
  note s = processBlock_sample_below_capacity [OF Cons.prems(1) hi step]
  note ih = Cons.IH [OF s(1) rest]
  from ih have runN: "running rate prN" by blast
  from ih have up: "\<forall>d \<in> set delays1. d \<le> real_of_int (bufferLength (delayLineL prN)) - 2 \<and>
                            d \<le> real_of_int (bufferLength (delayLineR prN)) - 2" by blast
  from ih have bl: "bufferLength (delayLineL prN) = bufferLength (delayLineL pr1)"
      "bufferLength (delayLineR prN) = bufferLength (delayLineR pr1)"
    by blast+
  from s(2,3) bl have "d \<le> real_of_int (bufferLength (delayLineL prN)) - 2"
    "d \<le> real_of_int (bufferLength (delayLineR prN)) - 2" by simp_all
  with runN up bl s(4,5) show ?case by (simp add: ds)
qed

lemma processBlock_SomeD:
  assumes "processBlock J store playhead scheduleL scheduleR mainInput isMainOutputStereo pr =
             Some (pr', outs, delays)"
  shows "\<exists>syncedTime inputs prN outs1 peaks levelL1 levelR1.
           syncedTime \<le> maxDelayTime \<and>
           processBlock_loop J syncedTime inputs
             (pr\<lparr>params := Parameters_update J store (params pr),
                  tempo := Tempo_update playhead (tempo pr)\<rparr>) (0, 0) =
             Some (prN, outs1, delays, peaks) \<and>
           pr' = prN\<lparr>levelL := levelL1, levelR := levelR1\<rparr>"
proof (cases mainInput)
  case Nil
  with assms show ?thesis by (simp add: processBlock_def)
next
  case (Cons channel0 others)
  define inputs where
    "inputs = zip channel0 (case others of [] \<Rightarrow> channel0 | channel1 # x \<Rightarrow> channel1)"
  define pr0 where "pr0 = pr\<lparr>params := Parameters_update J store (params pr),
                            tempo := Tempo_update playhead (tempo pr)\<rparr>"
  from assms obtain ms prN outs1 peaks levelL1 levelR1 where
    loop: "processBlock_loop J (if ms > maxDelayTime then maxDelayTime else ms) inputs pr0 (0, 0) =
             Some (prN, outs1, delays, peaks)"
    and pr': "pr' = prN\<lparr>levelL := levelL1, levelR := levelR1\<rparr>"
    unfolding processBlock_def Cons list.case Let_def inputs_def [symmetric] pr0_def [symmetric]
    by (auto split: option.splits prod.splits)
  have "(if ms > maxDelayTime then maxDelayTime else ms) \<le> maxDelayTime" by simp
  with loop pr' show ?thesis unfolding pr0_def by blast
qed

lemma processBlock_delays_below_capacity:
  assumes prep: "prepared rate pr" and ranges: "createParameterLayout_ranges store"
    and block: "processBlock J store playhead scheduleL scheduleR mainInput isMainOutputStereo pr =
                  Some (pr', outs, delays)"
  shows "prepared rate pr' \<and>
         (\<forall>d \<in> set delays. d \<le> real_of_int (bufferLength (delayLineL pr')) - 2 \<and>
                            d \<le> real_of_int (bufferLength (delayLineR pr')) - 2)"
proof -
  define pr0 where "pr0 = pr\<lparr>params := Parameters_update J store (params pr),
                            tempo := Tempo_update playhead (tempo pr)\<rparr>"
  from processBlock_SomeD [OF block]
  obtain syncedTime inputs prN outs1 maxL maxR levelL1 levelR1 where
    hi: "syncedTime \<le> maxDelayTime"
    and loop: "processBlock_loop J syncedTime inputs pr0 (0, 0) = Some (prN, outs1, delays, (maxL, maxR))"
    and pr': "pr' = prN\<lparr>levelL := levelL1, levelR := levelR1\<rparr>"
    unfolding pr0_def by (metis prod.exhaust)
  from ranges have dt: "minDelayTime \<le> delayTimeParam store" "delayTimeParam store \<le> maxDelayTime"
    by (simp_all add: createParameterLayout_ranges_def)
  have run: "running rate pr0"
    using prep dt
    by (auto simp: running_def prepared_def pr0_def Parameters_update_fields)
  note b = processBlock_loop_below_capacity [OF run hi loop]
  from b have runN: "running rate prN" by blast
  from b have up: "\<forall>d \<in> set delays. d \<le> real_of_int (bufferLength (delayLineL prN)) - 2 \<and>
                            d \<le> real_of_int (bufferLength (delayLineR prN)) - 2"
    by blast
  have "prepared rate pr'" using runN by (simp add: running_def prepared_def pr')
  with up show ?thesis by (simp add: pr')
qed

subsection \<open>A block in which the precondition of \<open>read\<close> fails\<close>

lemma DelayLine_read_first_sample:
  assumes r: "DelayLine_ready dl" and w: "writeIndex dl = 0" and len: "3 \<le> bufferLength dl"
    and d: "0 \<le> d" "d < 1"
  shows "\<exists>wet. DelayLine_read d dl = Some wet"
proof -
  from d have "\<lfloor>d\<rfloor> = 0" by (intro floor_unique) simp_all
  with d have fl: "float_to_int d = 0" by (simp add: float_to_int_def)
  from r have wf: "DelayLine_wf dl" by (simp add: DelayLine_ready_def)
  have f: "fetch dl i = Some (buffer dl ! nat i)" if "0 \<le> i" "i < bufferLength dl" for i
    using wf that by (rule fetch_in_range)
  from len show ?thesis
    by (simp add: DelayLine_read_def readIndices_wrap fl w wrapIndex_def f)
qed

lemma DelayLine_write_after_reset:
  assumes r: "DelayLine_ready dl" and w: "writeIndex dl = bufferLength dl - 1"
    and wr: "DelayLine_write x dl = Some dl'"
  shows "writeIndex dl' = 0" and "bufferLength dl' = bufferLength dl"
  using assms
  by (auto simp: DelayLine_write_def DelayLine_ready_def DelayLine_wf_def Let_def split: if_splits)

lemma processBlock_from_loop:
  assumes getms: "getMillisecondsForNoteLength (delayNote (Parameters_update J store (params pr)))
                    (Tempo_update playhead (tempo pr)) = Some ms"
    and st: "syncedTime = (if ms > maxDelayTime then maxDelayTime else ms)"
    and inp: "inputs = zip channel0 (case others of [] \<Rightarrow> channel0 | channel1 # x \<Rightarrow> channel1)"
    and pr0: "pr0 = pr\<lparr>params := Parameters_update J store (params pr),
                         tempo := Tempo_update playhead (tempo pr)\<rparr>"
    and loop: "processBlock_loop J syncedTime inputs pr0 (0, 0) = Some (prN, outs, delays, peaks)"
    and sched: "False \<in> set scheduleL" "False \<in> set scheduleR"
  shows "\<exists>levelL1 levelR1.
           processBlock J store playhead scheduleL scheduleR (channel0 # others)
             isMainOutputStereo pr =
           Some (prN\<lparr>levelL := levelL1, levelR := levelR1\<rparr>,
                 (if isMainOutputStereo then [map fst outs, map snd outs] else [map snd outs]),
                 delays)"
proof -
  obtain maxL maxR where peaks: "peaks = (maxL, maxR)" by (cases peaks)
  from updateIfGreater_succeeds [OF sched(1)]
  obtain levelL1 where uL: "updateIfGreater scheduleL maxL (levelL prN) = Some levelL1" by blast
  from updateIfGreater_succeeds [OF sched(2)]
  obtain levelR1 where uR: "updateIfGreater scheduleR maxR (levelR prN) = Some levelR1" by blast
  have "processBlock J store playhead scheduleL scheduleR (channel0 # others)
             isMainOutputStereo pr =
           Some (prN\<lparr>levelL := levelL1, levelR := levelR1\<rparr>,
                 (if isMainOutputStereo then [map fst outs, map snd outs] else [map snd outs]),
                 delays)"
    unfolding processBlock_def list.case Let_def getms option.case
      st [symmetric] inp [symmetric] pr0 [symmetric] loop peaks
    by (simp add: uL uR)
  then show ?thesis by blast
qed

text \<open>
  Claim C1 says that every delay passed to \<open>read\<close> satisfies
  \<open>1 \<le> delayInSamples \<le> bufferLength - 2\<close>, for every reachable parameter and tempo
  state. \<open>processBlock\<close> caps the tempo-synced delay time at the maximum delay time and
  leaves it unbounded below. Here a new processor is prepared at 48 kHz, the parameters are
  inside their declared ranges with tempo sync on and the note length 1/32, and the host
  reports a tempo of 1000000 BPM: the first sample of the block is read at a delay of
  9/25 of a sample, which the first assertion of \<open>read\<close> rejects.
\<close>

theorem processBlock_delay_below_one:
  "createParameterLayout_ranges ParameterStore_example \<and>
   (\<exists>pr1 pr2 outs.
      prepareToPlay JUCE_plain (\<lambda>i. 0) (\<lambda>i. 0) ParameterStore_example 48000 512
        (DelayAudioProcessor_new 0 () () 0) = Some pr1 \<and>
      processBlock JUCE_plain ParameterStore_example
        (Some \<lparr>getPosition = Some \<lparr>getBpm = Some 1000000\<rparr>\<rparr>) [False] [False] [[1], [1]] True pr1
        = Some (pr2, outs, [9 / 25]) \<and>
      \<not> read_pre (9 / 25) (delayLineL pr2) \<and> \<not> read_pre (9 / 25) (delayLineR pr2))"
proof -
  let ?J = JUCE_plain and ?store = ParameterStore_example
  let ?ph = "Some \<lparr>getPosition = Some \<lparr>getBpm = Some 1000000\<rparr>\<rparr>"
  have ranges: "createParameterLayout_ranges ?store"
    by (simp add: createParameterLayout_ranges_def ParameterStore_example_def
        minDelayTime_def maxDelayTime_def)
  let ?new = "DelayAudioProcessor_new 0 () () 0 :: (real, unit) DelayAudioProcessor"
  have wf: "DelayLine_wf (delayLineL ?new)" "DelayLine_wf (delayLineR ?new)"
    by (simp_all add: DelayAudioProcessor_new_def DelayLine_init_def DelayLine_wf_def)
  from prepareToPlay_prepared [OF _ wf, of 48000 ?J "\<lambda>i. 0" "\<lambda>i. 0" ?store 512]
  obtain pr1 where prep: "prepareToPlay ?J (\<lambda>i. 0) (\<lambda>i. 0) ?store 48000 512 ?new = Some pr1"
    and p1: "prepared 48000 pr1"
    and wi: "writeIndex (delayLineL pr1) = bufferLength (delayLineL pr1) - 1"
      "writeIndex (delayLineR pr1) = bufferLength (delayLineR pr1) - 1"
    by auto
  from p1 have sr: "sampleRate pr1 = 48000"
    and rl: "DelayLine_ready (delayLineL pr1)" and rr: "DelayLine_ready (delayLineR pr1)"
    and capl: "3 \<le> bufferLength (delayLineL pr1)" and capr: "3 \<le> bufferLength (delayLineR pr1)"
    by (simp_all add: prepared_def maxDelayTime_def)
  define pr0 where "pr0 = pr1\<lparr>params := Parameters_update ?J ?store (params pr1),
                              tempo := Tempo_update ?ph (tempo pr1)\<rparr>"
  have getms: "getMillisecondsForNoteLength (delayNote (Parameters_update ?J ?store (params pr1)))
                 (Tempo_update ?ph (tempo pr1)) = Some (3 / 400)"
    by (simp add: Parameters_update_fields ParameterStore_example_def Tempo_update_def
        Tempo_reset_def getMillisecondsForNoteLength_def noteLengthMultipliers_def)
  have st: "(3 / 400 :: real) = (if 3 / 400 > maxDelayTime then maxDelayTime else 3 / 400)"
    by (simp add: maxDelayTime_def)
  have inp: "[(1, 1)] = zip [1 :: real] (case [[1]] of [] \<Rightarrow> [1 :: real] | channel1 # x \<Rightarrow> channel1)"
    by simp
  have sync: "tempoSync (Parameters_smoothen ?J (params pr0))"
    by (simp add: pr0_def Parameters_smoothen_delayTime Parameters_update_fields
        ParameterStore_example_def)
  have d: "9 / 25 = (if tempoSync (Parameters_smoothen ?J (params pr0)) then 3 / 400
             else delayTime (Parameters_smoothen ?J (params pr0))) / 1000 * sampleRate pr0"
    using sync by (simp add: pr0_def sr)
  have rl0: "DelayLine_ready (delayLineL pr0)" and rr0: "DelayLine_ready (delayLineR pr0)"
    using rl rr by (simp_all add: pr0_def)
  have "\<exists>pr' out. processBlock_sample ?J (3 / 400) (1, 1) pr0 = Some (pr', out, 9 / 25)"
  proof (rule processBlock_sample_reads [OF rl0 rr0 d])
    fix x dl
    assume w: "DelayLine_write x (delayLineL pr0) = Some dl" and r: "DelayLine_ready dl"
    from DelayLine_write_after_reset [OF rl0 _ w] wi(1) capl
    have "writeIndex dl = 0" "3 \<le> bufferLength dl" by (simp_all add: pr0_def)
    with r show "\<exists>wet. DelayLine_read (9 / 25) dl = Some wet"
      by (rule DelayLine_read_first_sample) simp_all
  next
    fix x dl
    assume w: "DelayLine_write x (delayLineR pr0) = Some dl" and r: "DelayLine_ready dl"
    from DelayLine_write_after_reset [OF rr0 _ w] wi(2) capr
    have "writeIndex dl = 0" "3 \<le> bufferLength dl" by (simp_all add: pr0_def)
    with r show "\<exists>wet. DelayLine_read (9 / 25) dl = Some wet"
      by (rule DelayLine_read_first_sample) simp_all
  qed
  then obtain prN outL outR where
    step: "processBlock_sample ?J (3 / 400) (1, 1) pr0 = Some (prN, (outL, outR), 9 / 25)"
    by (metis prod.exhaust)
  then have loop: "processBlock_loop ?J (3 / 400) [(1, 1)] pr0 (0, 0) =
      Some (prN, [(outL, outR)], [9 / 25], (max 0 \<bar>outL\<bar>, max 0 \<bar>outR\<bar>))"
    by simp
  have sched: "False \<in> set [False]" by simp
  from processBlock_from_loop [OF getms st inp pr0_def loop sched sched, of True]
  obtain pr2 outs where
    res: "processBlock ?J ?store ?ph [False] [False] [[1], [1]] True pr1 =
            Some (pr2, outs, [9 / 25])"
    by blast
  have "\<not> read_pre (9 / 25) (delayLineL pr2)" "\<not> read_pre (9 / 25) (delayLineR pr2)"
    by (simp_all add: read_pre_def)
  with ranges prep res show ?thesis by blast
qed

end
